theory Spec2Isabelle
  imports Complex_Main
begin

section \<open>Python values: exceptions, indexing and list comprehensions\<close>

text \<open>
  The notebooks are Python. An exception is a value \<open>Inl e\<close> of a sum type, a normal
  result is \<open>Inr v\<close>. Two exceptions can arise in the modelled cells: \<open>IndexError\<close>
  (an index past the end of a sequence) and \<open>TypeError\<close> (\<open>functools.reduce\<close> on an
  empty sequence without an initial value, or an integer where a sequence is expected).
  Python's floating-point and complex numbers are modelled by the real and the complex
  numbers, so rounding is outside the model.
\<close>

datatype py_error = IndexError | TypeError

text \<open>\<open>xs[i]\<close> for a non-negative index \<open>i\<close>.\<close>

definition getitem :: "'a list \<Rightarrow> nat \<Rightarrow> py_error + 'a" where
  "getitem xs i = (if i < length xs then Inr (xs ! i) else Inl IndexError)"

text \<open>
  \<open>[f(x) for x in xs]\<close>: the elements are computed from left to right and the
  first exception aborts the comprehension.
\<close>

fun listcomp :: "('a \<Rightarrow> py_error + 'b) \<Rightarrow> 'a list \<Rightarrow> py_error + 'b list" where
  "listcomp f [] = Inr []"
| "listcomp f (x # xs) =
     (case f x of
        Inl e \<Rightarrow> Inl e
      | Inr y \<Rightarrow> (case listcomp f xs of Inl e \<Rightarrow> Inl e | Inr ys \<Rightarrow> Inr (y # ys)))"

section \<open>Pauli operators and Hamiltonians\<close>

text \<open>
  \<open>Pauli(z, x)\<close> of Qiskit holds two boolean vectors indexed by qubit. A weighted
  Pauli (\<open>PauliOp(pauli, coeff)\<close>, or one row \<open>[coeff, pauli]\<close> of an Aqua
  \<open>Operator\<close>) is a pair, and a Hamiltonian (\<open>SummedOp\<close> of weighted Paulis, an
  \<open>Operator\<close>, or a list of \<open>PauliTerm\<close>s) is the list of its terms in order.
\<close>

datatype pauli = Pauli (zvec: "bool list") (xvec: "bool list")

type_synonym pauli_op = "complex \<times> pauli"
type_synonym ham = "pauli_op list"

text \<open>\<open>np.eye(n)\<close> (as the booleans \<open>Pauli\<close> reads from it) and \<open>np.zeros(n)\<close>.\<close>

definition eye :: "nat \<Rightarrow> bool list list" where
  "eye n = map (\<lambda>r. map (\<lambda>c. c = r) [0..<n]) [0..<n]"

definition zeros :: "nat \<Rightarrow> bool list" where
  "zeros n = replicate n False"

text \<open>The product of two Paulis as \<open>Pauli.__mul__\<close> computes it: both vectors are xor-ed.\<close>

definition pauli_mul :: "pauli \<Rightarrow> pauli \<Rightarrow> pauli" where
  "pauli_mul a b =
     Pauli (map2 (\<lambda>u v. u \<noteq> v) (zvec a) (zvec b)) (map2 (\<lambda>u v. u \<noteq> v) (xvec a) (xvec b))"

text \<open>
  \<^verbatim>\<open>
  def pauli_x(qubit, coeff):
      eye = np.eye((n_qubits))
      return PauliOp(Pauli(np.zeros(n_qubits), eye[qubit]), coeff)
  def pauli_z(qubit, coeff):
      eye = np.eye((n_qubits))
      return PauliOp(Pauli(eye[qubit], np.zeros(n_qubits)), coeff)
  def product_pauli_z(q1, q2, coeff):
      eye = np.eye((n_qubits))
      return PauliOp(Pauli(eye[q1], np.zeros(n_qubits)) * Pauli(eye[q2], np.zeros(n_qubits)), coeff)
  \<close>
  The global \<open>n_qubits\<close> is the first argument. The assignment notebook wraps the same
  pair as \<open>Operator([[coeff, Pauli(...)]])\<close>.
\<close>

definition pauli_x :: "nat \<Rightarrow> nat \<Rightarrow> complex \<Rightarrow> py_error + pauli_op" where
  "pauli_x n_qubits qubit coeff =
     (case getitem (eye n_qubits) qubit of
        Inl e \<Rightarrow> Inl e
      | Inr row \<Rightarrow> Inr (coeff, Pauli (zeros n_qubits) row))"

definition pauli_z :: "nat \<Rightarrow> nat \<Rightarrow> complex \<Rightarrow> py_error + pauli_op" where
  "pauli_z n_qubits qubit coeff =
     (case getitem (eye n_qubits) qubit of
        Inl e \<Rightarrow> Inl e
      | Inr row \<Rightarrow> Inr (coeff, Pauli row (zeros n_qubits)))"

definition product_pauli_z :: "nat \<Rightarrow> nat \<Rightarrow> nat \<Rightarrow> complex \<Rightarrow> py_error + pauli_op" where
  "product_pauli_z n_qubits q1 q2 coeff =
     (case getitem (eye n_qubits) q1 of
        Inl e \<Rightarrow> Inl e
      | Inr row1 \<Rightarrow>
          (case getitem (eye n_qubits) q2 of
             Inl e \<Rightarrow> Inl e
           | Inr row2 \<Rightarrow>
               Inr (coeff, pauli_mul (Pauli row1 (zeros n_qubits)) (Pauli row2 (zeros n_qubits)))))"

section \<open>State vectors and the action of the operators\<close>

text \<open>
  A state of \<open>n\<close> qubits is the list of its \<open>2 ^ n\<close> amplitudes; qubit \<open>q\<close> is
  bit \<open>q\<close> of the index (Qiskit's order, qubit 0 least significant). The functions of
  this section say what the library objects denote: the matrix of a Pauli applied to a
  vector, the exponential of a weighted Pauli, and the expectation value.
\<close>

type_synonym state = "complex list"

definition bit_of :: "nat \<Rightarrow> nat \<Rightarrow> bool" where
  "bit_of k q = odd (k div 2 ^ q)"

definition flip_bit_at :: "nat \<Rightarrow> nat \<Rightarrow> nat" where
  "flip_bit_at q k = (if bit_of k q then k - 2 ^ q else k + 2 ^ q)"

definition apply_Z :: "nat \<Rightarrow> state \<Rightarrow> state" where
  "apply_Z q \<psi> = map (\<lambda>k. if bit_of k q then - (\<psi> ! k) else \<psi> ! k) [0..<length \<psi>]"

definition apply_X :: "nat \<Rightarrow> state \<Rightarrow> state" where
  "apply_X q \<psi> = map (\<lambda>k. \<psi> ! flip_bit_at q k) [0..<length \<psi>]"

text \<open>One qubit's factor: I, Z, X, or Y = i X Z when both flags are set.\<close>

fun apply_sigma :: "bool \<Rightarrow> bool \<Rightarrow> nat \<Rightarrow> state \<Rightarrow> state" where
  "apply_sigma False False q \<psi> = \<psi>"
| "apply_sigma True False q \<psi> = apply_Z q \<psi>"
| "apply_sigma False True q \<psi> = apply_X q \<psi>"
| "apply_sigma True True q \<psi> = map (\<lambda>a. \<i> * a) (apply_X q (apply_Z q \<psi>))"

fun apply_qubits :: "(bool \<times> bool) list \<Rightarrow> nat \<Rightarrow> state \<Rightarrow> state" where
  "apply_qubits [] q \<psi> = \<psi>"
| "apply_qubits ((z, x) # zx) q \<psi> = apply_qubits zx (Suc q) (apply_sigma z x q \<psi>)"

definition apply_pauli :: "pauli \<Rightarrow> state \<Rightarrow> state" where
  "apply_pauli P \<psi> = apply_qubits (zip (zvec P) (xvec P)) 0 \<psi>"

text \<open>\<open>H |\<psi>>\<close> for \<open>H\<close> the weighted sum of its terms.\<close>

fun apply_ham :: "ham \<Rightarrow> state \<Rightarrow> state" where
  "apply_ham [] \<psi> = map (\<lambda>a. 0) \<psi>"
| "apply_ham ((c, P) # ts) \<psi> = map2 (\<lambda>a b. c * a + b) (apply_pauli P \<psi>) (apply_ham ts \<psi>)"

text \<open>\<open>to_matrix\<close>: entry (r, c) is the amplitude r of \<open>H\<close> applied to basis state c.\<close>

definition basis :: "nat \<Rightarrow> nat \<Rightarrow> state" where
  "basis d c = map (\<lambda>k. if k = c then 1 else 0) [0..<d]"

definition to_matrix :: "nat \<Rightarrow> ham \<Rightarrow> complex list list" where
  "to_matrix n_qubits H =
     map (\<lambda>r. map (\<lambda>c. apply_ham H (basis (2 ^ n_qubits) c) ! r) [0..<2 ^ n_qubits])
       [0..<2 ^ n_qubits]"

text \<open>The expectation value \<open><\<psi>| H |\<psi>>\<close>, a complex number.\<close>

definition expectation :: "ham \<Rightarrow> state \<Rightarrow> complex" where
  "expectation H \<psi> = sum_list (map2 (\<lambda>a b. cnj a * b) \<psi> (apply_ham H \<psi>))"

text \<open>
  The evolution of a single weighted Pauli \<open>c P\<close> for the angle \<open>\<theta>\<close>. The libraries
  rotate by a real angle: they take the real part of the coefficient (Aqua's \<open>evolve\<close>,
  and \<open>term.coefficient.real\<close> in pyquil's \<open>exponential_map\<close>), so the operator is
  \<open>exp(-i \<theta> Re(c) P)\<close>, unitary for every coefficient. Since \<open>P P = I\<close> it maps
  \<open>|\<psi>>\<close> to \<open>cos(\<theta> Re(c)) |\<psi>> - i sin(\<theta> Re(c)) P |\<psi>>\<close>. The coefficients of the
  notebooks' Hamiltonians are real, and then this is \<open>exp(-i \<theta> c P)\<close>.
\<close>

definition exp_term :: "real \<Rightarrow> pauli_op \<Rightarrow> state \<Rightarrow> state" where
  "exp_term \<theta> t \<psi> =
     map2 (\<lambda>a b. of_real (cos (\<theta> * Re (fst t))) * a - \<i> * of_real (sin (\<theta> * Re (fst t))) * b)
       \<psi> (apply_pauli (snd t) \<psi>)"


section \<open>The lecture notebook (Qiskit operator flow)\<close>

text \<open>
  The functions of a notebook read global variables set by earlier cells. They are
  collected in a record that every function takes as its first argument. The record
  serves both notebooks: \<open>g_init_state\<close> is the \<open>init_state\<close> of the lecture notebook,
  \<open>g_circuit_init\<close> the \<open>circuit_init\<close> of the assignment notebook, a circuit object of
  one of two classes (section on the assignment notebook below).
\<close>

datatype circuit = QuantumCircuit state | Program state

record globals =
  g_n_qubits :: nat
  g_p :: nat
  g_Hm :: ham
  g_Hc :: ham
  g_init_state :: state
  g_circuit_init :: circuit

text \<open>
  \<^verbatim>\<open>
  Hm = SummedOp([pauli_x(i, -1) for i in range(n_qubits)])
  J = np.array([[0,1],[0,0]])
  Hc = SummedOp([product_pauli_z(i,j, -J[i,j])
                 for i,j in itertools.product(range(n_qubits), repeat=2)])
  init_state_vect = [1 for i in range(2**n_qubits)]
  init_state = VectorStateFn(init_state_vect, coeff=1/np.sqrt(2 ** n_qubits))
  \<close>
\<close>

definition Hm_lecture :: "nat \<Rightarrow> py_error + ham" where
  "Hm_lecture n_qubits = listcomp (\<lambda>i. pauli_x n_qubits i (- 1)) [0..<n_qubits]"

definition J :: "int list list" where
  "J = [[0, 1], [0, 0]]"

definition Hc_lecture :: "nat \<Rightarrow> py_error + ham" where
  "Hc_lecture n_qubits =
     listcomp (\<lambda>(i, j).
        case getitem J i of
          Inl e \<Rightarrow> Inl e
        | Inr row \<Rightarrow>
            (case getitem row j of
               Inl e \<Rightarrow> Inl e
             | Inr Jij \<Rightarrow> product_pauli_z n_qubits i j (of_int (- Jij))))
       (List.product [0..<n_qubits] [0..<n_qubits])"

definition init_state :: "nat \<Rightarrow> state" where
  "init_state n_qubits =
     map (\<lambda>v. of_real (1 / sqrt (2 ^ n_qubits)) * v) (replicate (2 ^ n_qubits) 1)"

text \<open>
  \<^verbatim>\<open>
  def evolve(hamiltonian, angle):
      return (angle * hamiltonian).exp_i()
  \<close>
  \<open>exp_i\<close> of an operator \<open>A\<close> is \<open>exp(-i A)\<close>, which the evaluation turns into
  the product of the exponentials of the terms (\<open>PauliTrotterEvolution\<close>). The terms of
  every Hamiltonian built in the notebooks commute, so the product over the terms in
  list order is that operator exactly. The operator is modelled by its action on states.
\<close>

definition evolve :: "ham \<Rightarrow> real \<Rightarrow> state \<Rightarrow> state" where
  "evolve hamiltonian angle \<psi> = fold (exp_term angle) hamiltonian \<psi>"

text \<open>
  \<open>ComposedOp([A0, ..., Ak, state])\<close> denotes \<open>A0 (A1 (... (Ak state)))\<close>, and
  \<open>A @ B\<close> is the composition \<open>A \<circ> B\<close>.
\<close>

definition ComposedOp :: "(state \<Rightarrow> state) list \<Rightarrow> state \<Rightarrow> state" where
  "ComposedOp oplist \<psi> = foldr (\<lambda>A s. A s) oplist \<psi>"

text \<open>
  \<^verbatim>\<open>
  def create_circuit(beta, gamma):
      return ComposedOp([evolve(Hm, beta[i]) @ evolve(Hc, gamma[i])
                         for i in range(p)] + [init_state])
  \<close>
\<close>

definition create_circuit :: "globals \<Rightarrow> real list \<Rightarrow> real list \<Rightarrow> py_error + state" where
  "create_circuit g beta gamma =
     (case listcomp (\<lambda>i.
              case getitem beta i of
                Inl e \<Rightarrow> Inl e
              | Inr b \<Rightarrow>
                  (case getitem gamma i of
                     Inl e \<Rightarrow> Inl e
                   | Inr c \<Rightarrow> Inr (evolve (g_Hm g) b \<circ> evolve (g_Hc g) c)))
            [0..<g_p g] of
        Inl e \<Rightarrow> Inl e
      | Inr oplist \<Rightarrow> Inr (ComposedOp oplist (g_init_state g)))"

text \<open>
  \<^verbatim>\<open>
  def evaluate_hamiltonian(beta_gamma, hamiltonian):
      n = len(beta_gamma)//2
      circuit = create_circuit(beta_gamma[:n], beta_gamma[n:])
      meas = OperatorStateFn(hamiltonian, is_measurement=True)
      circuit_meas = PauliTrotterEvolution(trotter_mode=Suzuki(order=3, reps=1)).convert(meas @ circuit)
      circuit_expectation = PauliExpectation().convert(circuit_meas)
      sampler = CircuitSampler(backend=Aer.get_backend('statevector_simulator'))
      sampled_trotter_exp_op = sampler.convert(circuit_expectation)
      return sampled_trotter_exp_op.eval().real
  \<close>
\<close>

definition evaluate_hamiltonian :: "globals \<Rightarrow> real list \<Rightarrow> ham \<Rightarrow> py_error + real" where
  "evaluate_hamiltonian g beta_gamma hamiltonian =
     (let n = length beta_gamma div 2 in
      case create_circuit g (take n beta_gamma) (drop n beta_gamma) of
        Inl e \<Rightarrow> Inl e
      | Inr circuit \<Rightarrow> Inr (Re (expectation hamiltonian circuit)))"

section \<open>The assignment notebook (Qiskit Aqua or PyQuil)\<close>

text \<open>
  A circuit is modelled by the state it prepares, tagged with the class of the object
  (\<open>qiskit.QuantumCircuit\<close> or \<open>pyquil.Program\<close>) because the functions branch on it;
  a circuit fragment that is appended to another one is modelled by its action on states.
  \<open>a + b\<close> on fragments runs \<open>a\<close> first.
\<close>

definition circuit_add :: "(state \<Rightarrow> state) \<Rightarrow> (state \<Rightarrow> state) \<Rightarrow> state \<Rightarrow> state" where
  "circuit_add a b = b \<circ> a"

text \<open>\<open>functools.reduce(f, xs)\<close> without an initial value.\<close>

fun reduce :: "('a \<Rightarrow> 'a \<Rightarrow> 'a) \<Rightarrow> 'a list \<Rightarrow> py_error + 'a" where
  "reduce f [] = Inl TypeError"
| "reduce f (x # xs) = Inr (foldl f x xs)"

text \<open>
  The PyQuil loops. \<open>exponential_map(term)\<close>, built for every term before the loops, is
  meant for a term with a real coefficient, as all terms of the notebook's Hamiltonians
  are; \<open>exponential_map(term)(alpha)\<close> is then the program of \<open>exp(-i alpha term)\<close>. The
  angle is read inside the inner loop, once per term.
  \<^verbatim>\<open>
  for i in range(p):
      for term_exp_Hm in exp_Hm:
          circuit += term_exp_Hm(-beta[i])
      for term_exp_Hc in exp_Hc:
          circuit += term_exp_Hc(-gamma[i])
  \<close>
\<close>

fun pyquil_terms :: "ham \<Rightarrow> real list \<Rightarrow> nat \<Rightarrow> state \<Rightarrow> py_error + state" where
  "pyquil_terms [] angles i \<psi> = Inr \<psi>"
| "pyquil_terms (t # ts) angles i \<psi> =
     (case getitem angles i of
        Inl e \<Rightarrow> Inl e
      | Inr a \<Rightarrow> pyquil_terms ts angles i (exp_term (- a) t \<psi>))"

fun pyquil_steps :: "globals \<Rightarrow> real list \<Rightarrow> real list \<Rightarrow> nat list \<Rightarrow> state \<Rightarrow> py_error + state" where
  "pyquil_steps g beta gamma [] \<psi> = Inr \<psi>"
| "pyquil_steps g beta gamma (i # is) \<psi> =
     (case pyquil_terms (g_Hm g) beta i \<psi> of
        Inl e \<Rightarrow> Inl e
      | Inr \<psi>' \<Rightarrow>
          (case pyquil_terms (g_Hc g) gamma i \<psi>' of
             Inl e \<Rightarrow> Inl e
           | Inr \<psi>'' \<Rightarrow> pyquil_steps g beta gamma is \<psi>''))"

text \<open>
  \<^verbatim>\<open>
  def create_circuit(circuit_init, beta, gamma):
      if isinstance(circuit_init, qiskit.circuit.quantumcircuit.QuantumCircuit):
          qr = circuit_init.qregs[0]
          circuit_evolv = reduce(lambda x,y: x+y, [evolve(Hc, beta[i], qr) + evolve(Hm, gamma[i], qr)
                                                   for i in range(p)])
          circuit = circuit_init + circuit_evolv
      elif isinstance(circuit_init, pyquil.quil.Program):
          ...
          circuit = Program()
          circuit += circuit_init
          for i in range(p): ...
      return circuit
  \<close>
  The three-argument \<open>evolve\<close> of this notebook (\<open>hamiltonian.evolve(None, angle, ...)\<close>)
  denotes the same operator \<open>exp(-i angle H)\<close> as \<open>evolve\<close> above.
\<close>

definition create_circuit_assignment ::
  "globals \<Rightarrow> circuit \<Rightarrow> real list \<Rightarrow> real list \<Rightarrow> py_error + circuit" where
  "create_circuit_assignment g circuit_init beta gamma =
     (case circuit_init of
        QuantumCircuit \<psi> \<Rightarrow>
          (case listcomp (\<lambda>i.
                   case getitem beta i of
                     Inl e \<Rightarrow> Inl e
                   | Inr b \<Rightarrow>
                       (case getitem gamma i of
                          Inl e \<Rightarrow> Inl e
                        | Inr c \<Rightarrow> Inr (circuit_add (evolve (g_Hc g) b) (evolve (g_Hm g) c))))
                 [0..<g_p g] of
             Inl e \<Rightarrow> Inl e
           | Inr fragments \<Rightarrow>
               (case reduce circuit_add fragments of
                  Inl e \<Rightarrow> Inl e
                | Inr circuit_evolv \<Rightarrow> Inr (QuantumCircuit (circuit_evolv \<psi>))))
      | Program \<psi> \<Rightarrow>
          (case pyquil_steps g beta gamma [0..<g_p g] \<psi> of
             Inl e \<Rightarrow> Inl e
           | Inr \<psi>' \<Rightarrow> Inr (Program \<psi>')))"

text \<open>
  \<^verbatim>\<open>
  def evaluate_circuit(beta_gamma):
      n = len(beta_gamma)//2
      circuit = create_circuit(circuit_init, beta_gamma[:n], beta_gamma[n:])
      if isinstance(circuit, qiskit.circuit.quantumcircuit.QuantumCircuit):
          return np.real(Hc.eval("matrix", circuit, get_aer_backend('statevector_simulator'))[0])
      elif isinstance(circuit, pyquil.quil.Program):
          qvm = pyquil.api.QVMConnection(...)
          return np.real(qvm.pauli_expectation(circuit, sum(Hc)))
  \<close>
  In the PyQuil branch \<open>Hc\<close> is a Python list of terms and \<open>sum(Hc)\<close> is their
  \<open>PauliSum\<close>; for an empty list it is the integer 0, over which \<open>pauli_expectation\<close>
  cannot iterate.
\<close>

definition pauli_sum :: "ham \<Rightarrow> py_error + ham" where
  "pauli_sum H = (if H = [] then Inl TypeError else Inr H)"

definition evaluate_circuit :: "globals \<Rightarrow> real list \<Rightarrow> py_error + real" where
  "evaluate_circuit g beta_gamma =
     (let n = length beta_gamma div 2 in
      case create_circuit_assignment g (g_circuit_init g) (take n beta_gamma) (drop n beta_gamma) of
        Inl e \<Rightarrow> Inl e
      | Inr (QuantumCircuit \<psi>) \<Rightarrow> Inr (Re (expectation (g_Hc g) \<psi>))
      | Inr (Program \<psi>) \<Rightarrow>
          (case pauli_sum (g_Hc g) of
             Inl e \<Rightarrow> Inl e
           | Inr H \<Rightarrow> Inr (Re (expectation H \<psi>))))"


section \<open>The global variables of the two notebooks\<close>

text \<open>
  The lecture notebook sets \<open>n_qubits = 2\<close> and \<open>p = 1\<close>; \<open>Hm\<close>, \<open>Hc\<close> and
  \<open>init_state\<close> are the values of the cells above at \<open>n_qubits = 2\<close> (lemmas
  \<open>Hm_lecture_2\<close>, \<open>Hc_lecture_2\<close> and \<open>init_state_2\<close> below). The notebook has no
  \<open>circuit_init\<close> (its cell is disabled); the field is not read by its functions.
\<close>

definition lecture_globals :: globals where
  "lecture_globals =
     \<lparr>g_n_qubits = 2,
      g_p = 1,
      g_Hm = [(- 1, Pauli [False, False] [True, False]), (- 1, Pauli [False, False] [False, True])],
      g_Hc = [(0, Pauli [False, False] [False, False]), (- 1, Pauli [True, True] [False, False]),
              (0, Pauli [True, True] [False, False]), (0, Pauli [False, False] [False, False])],
      g_init_state = [1 / 2, 1 / 2, 1 / 2, 1 / 2],
      g_circuit_init = QuantumCircuit [1 / 2, 1 / 2, 1 / 2, 1 / 2]\<rparr>"

text \<open>
  Modelled from the spec: the cell of the assignment notebook that defines \<open>Hm\<close> is left
  to the student (\<open>YOUR CODE HERE\<close>); only the assertions on it are in the notebook.
  \<open>Hm\<close> is the sum of the single-qubit X operators with weight 1, built with the
  notebook's own \<open>pauli_x\<close> (the sum of operators is the list of their terms).
\<close>

definition Hm_assignment :: "nat \<Rightarrow> py_error + ham" where
  "Hm_assignment n_qubits = listcomp (\<lambda>i. pauli_x n_qubits i 1) [0..<n_qubits]"

text \<open>
  Modelled from the spec: the cell of the assignment notebook that defines \<open>Hc\<close> is left
  to the student; only the assertions on it are in the notebook.
  \<open>Hc = -Z0 Z1 - 0.5 Z0\<close>, built with the notebook's own \<open>product_pauli_z\<close> and
  \<open>pauli_z\<close>.
\<close>

definition Hc_assignment :: "nat \<Rightarrow> py_error + ham" where
  "Hc_assignment n_qubits =
     (case product_pauli_z n_qubits 0 1 (- 1) of
        Inl e \<Rightarrow> Inl e
      | Inr zz \<Rightarrow>
          (case pauli_z n_qubits 0 (- (1 / 2)) of
             Inl e \<Rightarrow> Inl e
           | Inr z \<Rightarrow> Inr [zz, z]))"

text \<open>
  Modelled from the spec: the cell of the assignment notebook that defines \<open>circuit_init\<close>
  is left to the student; it prepares the uniform superposition, with the amplitudes
  \<open>[0.5, 0.5, 0.5, 0.5]\<close> that the notebook asserts. The notebook sets \<open>n_qubits = 2\<close> and
  \<open>p = 2\<close>; \<open>Hm\<close> and \<open>Hc\<close> are the values of \<open>Hm_assignment\<close> and \<open>Hc_assignment\<close>
  at \<open>n_qubits = 2\<close> (lemmas \<open>Hm_assignment_2\<close> and \<open>Hc_assignment_2\<close> below). The
  globals are given for any \<open>p\<close> and for either class of \<open>circuit_init\<close> (\<open>sdk\<close> is
  \<open>QuantumCircuit\<close> or \<open>Program\<close>). The notebook has no \<open>init_state\<close>; the field holds
  the same uniform state, so that the lecture notebook's functions can be run on these
  globals as well.
\<close>

definition assignment_globals :: "(state \<Rightarrow> circuit) \<Rightarrow> nat \<Rightarrow> globals" where
  "assignment_globals sdk p =
     \<lparr>g_n_qubits = 2,
      g_p = p,
      g_Hm = [(1, Pauli [False, False] [True, False]), (1, Pauli [False, False] [False, True])],
      g_Hc = [(- 1, Pauli [True, True] [False, False]), (- (1 / 2), Pauli [True, False] [False, False])],
      g_init_state = [1 / 2, 1 / 2, 1 / 2, 1 / 2],
      g_circuit_init = sdk [1 / 2, 1 / 2, 1 / 2, 1 / 2]\<rparr>"

section \<open>Notions used to state the properties\<close>

text \<open>
  Applying evolutions in order: \<open>run_in_order [(H1, t1), (H2, t2), ...]\<close> evolves the
  state under \<open>H1\<close> for \<open>t1\<close> first, then under \<open>H2\<close> for \<open>t2\<close>, and so on.
  \<open>alternating_steps A B as bs is\<close> is the schedule that, for each index \<open>i\<close> of
  \<open>is\<close> in turn, evolves under \<open>A\<close> for \<open>as[i]\<close> and then under \<open>B\<close> for \<open>bs[i]\<close>.
\<close>

definition run_in_order :: "(ham \<times> real) list \<Rightarrow> state \<Rightarrow> state" where
  "run_in_order steps \<psi> = fold (\<lambda>(H, t). evolve H t) steps \<psi>"

definition alternating_steps ::
  "ham \<Rightarrow> ham \<Rightarrow> real list \<Rightarrow> real list \<Rightarrow> nat list \<Rightarrow> (ham \<times> real) list" where
  "alternating_steps A B as bs is = concat (map (\<lambda>i. [(A, as ! i), (B, bs ! i)]) is)"

text \<open>
  The state preparation in the words of the specification: \<open>p\<close> alternating evolutions,
  the mixing observable for duration \<open>beta[i]\<close> followed by the cost observable for
  duration \<open>gamma[i]\<close>, for \<open>i = 0, ..., p - 1\<close> in order, from the initial state.
\<close>

definition spec_prepare :: "globals \<Rightarrow> state \<Rightarrow> real list \<Rightarrow> real list \<Rightarrow> state" where
  "spec_prepare g \<psi>0 beta gamma =
     run_in_order (alternating_steps (g_Hm g) (g_Hc g) beta gamma [0..<g_p g]) \<psi>0"

text \<open>The squared norm of a state vector.\<close>

definition norm_sq :: "state \<Rightarrow> real" where
  "norm_sq \<psi> = sum_list (map (\<lambda>a. (cmod a)\<^sup>2) \<psi>)"


section \<open>Auxiliary lemmas\<close>

subsection \<open>List comprehensions and indexing\<close>

lemma listcomp_all_Inr:
  "(\<And>x. x \<in> set xs \<Longrightarrow> f x = Inr (h x)) \<Longrightarrow> listcomp f xs = Inr (map h xs)"
  by (induction xs) simp_all

lemma listcomp_append:
  "listcomp f (xs @ ys) =
     (case listcomp f xs of
        Inl e \<Rightarrow> Inl e
      | Inr us \<Rightarrow> (case listcomp f ys of Inl e \<Rightarrow> Inl e | Inr vs \<Rightarrow> Inr (us @ vs)))"
  by (induction xs) (simp_all split: sum.splits)

lemma listcomp_first_failure:
  assumes "\<And>x. x \<in> set xs \<Longrightarrow> f x = Inr (h x)" and "f y = Inl e"
  shows "listcomp f (xs @ y # ys) = Inl e"
  using assms by (simp add: listcomp_append listcomp_all_Inr)

lemma upt_split: "m < p \<Longrightarrow> [0..<p] = [0..<m] @ m # [Suc m..<p]"
proof -
  assume m: "m < p"
  then have "[0..<p] = [0..<m] @ [m..<p]"
    using upt_add_eq_append [of 0 m "p - m"] by simp
  with m show ?thesis
    by (simp add: upt_conv_Cons)
qed

subsection \<open>run_in_order\<close>

lemma run_in_order_alternating:
  "run_in_order (alternating_steps A B as bs is) \<psi> =
     fold (\<lambda>i \<phi>. evolve B (bs ! i) (evolve A (as ! i) \<phi>)) is \<psi>"
  by (induction "is" arbitrary: \<psi>) (simp_all add: run_in_order_def alternating_steps_def)

lemma ComposedOp_map:
  "ComposedOp (map F is) \<psi> = fold F (rev is) \<psi>"
proof -
  have "ComposedOp (map F is) \<psi> = foldr F is \<psi>"
    by (induction "is") (simp_all add: ComposedOp_def)
  then show ?thesis
    by (simp add: foldr_conv_fold)
qed

subsection \<open>lecture create_circuit\<close>

lemma create_circuit_Inr:
  assumes "g_p g \<le> length beta" and "g_p g \<le> length gamma"
  shows "create_circuit g beta gamma =
     Inr (run_in_order (alternating_steps (g_Hc g) (g_Hm g) gamma beta (rev [0..<g_p g])) (g_init_state g))"
proof -
  have "listcomp (\<lambda>i. case getitem beta i of Inl e \<Rightarrow> Inl e
          | Inr b \<Rightarrow> (case getitem gamma i of Inl e \<Rightarrow> Inl e
              | Inr c \<Rightarrow> Inr (evolve (g_Hm g) b \<circ> evolve (g_Hc g) c))) [0..<g_p g]
        = Inr (map (\<lambda>i. evolve (g_Hm g) (beta ! i) \<circ> evolve (g_Hc g) (gamma ! i)) [0..<g_p g])"
    using assms by (intro listcomp_all_Inr) (simp add: getitem_def)
  then show ?thesis
    by (simp add: create_circuit_def ComposedOp_map run_in_order_alternating comp_def)
qed

lemma create_circuit_Inl:
  assumes "length beta < g_p g \<or> length gamma < g_p g"
  shows "create_circuit g beta gamma = Inl IndexError"
proof -
  define m where "m = min (length beta) (length gamma)"
  let ?f = "\<lambda>i. case getitem beta i of Inl e \<Rightarrow> Inl e
          | Inr b \<Rightarrow> (case getitem gamma i of Inl e \<Rightarrow> Inl e
              | Inr c \<Rightarrow> Inr (evolve (g_Hm g) b \<circ> evolve (g_Hc g) c))"
  have m: "m < g_p g" using assms by (auto simp: m_def)
  have ok: "\<And>x. x \<in> set [0..<m] \<Longrightarrow>
      ?f x = Inr (evolve (g_Hm g) (beta ! x) \<circ> evolve (g_Hc g) (gamma ! x))"
    by (simp add: getitem_def m_def)
  have bad: "?f m = Inl IndexError"
    by (auto simp: getitem_def m_def min_def)
  have "listcomp ?f ([0..<m] @ m # [Suc m..<g_p g]) = Inl IndexError"
    using ok bad by (rule listcomp_first_failure)
  then show ?thesis
    by (simp add: create_circuit_def upt_split [OF m])
qed


subsection \<open>assignment create_circuit, Qiskit branch\<close>

lemma foldl_circuit_add:
  "foldl circuit_add f fs \<psi> = fold (\<lambda>h \<phi>. h \<phi>) fs (f \<psi>)"
  by (induction fs arbitrary: f) (simp_all add: circuit_add_def)

lemma reduce_circuit_add_map:
  "is \<noteq> [] \<Longrightarrow> \<exists>c. reduce circuit_add (map F is) = Inr c \<and> c \<psi> = fold F is \<psi>"
  by (cases "is") (simp_all add: foldl_circuit_add fold_map comp_def)

lemma create_circuit_qiskit_Inr:
  assumes "g_p g \<le> length beta" and "g_p g \<le> length gamma" and "0 < g_p g"
  shows "create_circuit_assignment g (QuantumCircuit \<psi>) beta gamma =
     Inr (QuantumCircuit
       (run_in_order (alternating_steps (g_Hc g) (g_Hm g) beta gamma [0..<g_p g]) \<psi>))"
proof -
  let ?F = "\<lambda>i. circuit_add (evolve (g_Hc g) (beta ! i)) (evolve (g_Hm g) (gamma ! i))"
  have lc: "listcomp (\<lambda>i. case getitem beta i of Inl e \<Rightarrow> Inl e
          | Inr b \<Rightarrow> (case getitem gamma i of Inl e \<Rightarrow> Inl e
              | Inr c \<Rightarrow> Inr (circuit_add (evolve (g_Hc g) b) (evolve (g_Hm g) c)))) [0..<g_p g]
        = Inr (map ?F [0..<g_p g])"
    using assms by (intro listcomp_all_Inr) (simp add: getitem_def)
  from assms(3) have "[0..<g_p g] \<noteq> []" by simp
  then obtain c where c: "reduce circuit_add (map ?F [0..<g_p g]) = Inr c"
      "c \<psi> = fold ?F [0..<g_p g] \<psi>"
    using reduce_circuit_add_map by blast
  have "fold ?F [0..<g_p g] \<psi> =
      run_in_order (alternating_steps (g_Hc g) (g_Hm g) beta gamma [0..<g_p g]) \<psi>"
    by (simp add: run_in_order_alternating circuit_add_def comp_def)
  with c show ?thesis
    by (simp add: create_circuit_assignment_def lc)
qed

lemma create_circuit_qiskit_Inl:
  assumes "length beta < g_p g \<or> length gamma < g_p g"
  shows "create_circuit_assignment g (QuantumCircuit \<psi>) beta gamma = Inl IndexError"
proof -
  define m where "m = min (length beta) (length gamma)"
  let ?f = "\<lambda>i. case getitem beta i of Inl e \<Rightarrow> Inl e
          | Inr b \<Rightarrow> (case getitem gamma i of Inl e \<Rightarrow> Inl e
              | Inr c \<Rightarrow> Inr (circuit_add (evolve (g_Hc g) b) (evolve (g_Hm g) c)))"
  have m: "m < g_p g" using assms by (auto simp: m_def)
  have ok: "\<And>x. x \<in> set [0..<m] \<Longrightarrow>
      ?f x = Inr (circuit_add (evolve (g_Hc g) (beta ! x)) (evolve (g_Hm g) (gamma ! x)))"
    by (simp add: getitem_def m_def)
  have bad: "?f m = Inl IndexError"
    by (auto simp: getitem_def m_def min_def)
  have "listcomp ?f ([0..<m] @ m # [Suc m..<g_p g]) = Inl IndexError"
    using ok bad by (rule listcomp_first_failure)
  then show ?thesis
    by (simp add: create_circuit_assignment_def upt_split [OF m])
qed

lemma create_circuit_qiskit_zero:
  "g_p g = 0 \<Longrightarrow> create_circuit_assignment g (QuantumCircuit \<psi>) beta gamma = Inl TypeError"
  by (simp add: create_circuit_assignment_def)

subsection \<open>assignment create_circuit, PyQuil branch\<close>

lemma pyquil_terms_Inr:
  "i < length angles \<Longrightarrow> pyquil_terms H angles i \<psi> = Inr (evolve H (- (angles ! i)) \<psi>)"
  by (induction H arbitrary: \<psi>) (simp_all add: getitem_def evolve_def)

lemma pyquil_terms_Inl:
  "length angles \<le> i \<Longrightarrow> H \<noteq> [] \<Longrightarrow> pyquil_terms H angles i \<psi> = Inl IndexError"
  by (cases H) (simp_all add: getitem_def)

lemma pyquil_steps_Inr:
  assumes "\<And>i. i \<in> set is \<Longrightarrow> i < length beta \<and> i < length gamma"
  shows "pyquil_steps g beta gamma is \<psi> =
     Inr (fold (\<lambda>i \<phi>. evolve (g_Hc g) (- (gamma ! i)) (evolve (g_Hm g) (- (beta ! i)) \<phi>)) is \<psi>)"
  using assms by (induction "is" arbitrary: \<psi>) (simp_all add: pyquil_terms_Inr)

lemma pyquil_steps_append:
  "pyquil_steps g beta gamma (xs @ ys) \<psi> =
     (case pyquil_steps g beta gamma xs \<psi> of
        Inl e \<Rightarrow> Inl e
      | Inr \<phi> \<Rightarrow> pyquil_steps g beta gamma ys \<phi>)"
  by (induction xs arbitrary: \<psi>) (simp_all split: sum.splits)

lemma create_circuit_pyquil_Inr:
  assumes "g_p g \<le> length beta" and "g_p g \<le> length gamma"
  shows "create_circuit_assignment g (Program \<psi>) beta gamma =
     Inr (Program
       (run_in_order (alternating_steps (g_Hm g) (g_Hc g) (map uminus beta) (map uminus gamma)
          [0..<g_p g]) \<psi>))"
proof -
  have "pyquil_steps g beta gamma [0..<g_p g] \<psi> =
     Inr (fold (\<lambda>i \<phi>. evolve (g_Hc g) (- (gamma ! i)) (evolve (g_Hm g) (- (beta ! i)) \<phi>)) [0..<g_p g] \<psi>)"
    using assms by (intro pyquil_steps_Inr) simp
  moreover have "fold (\<lambda>i \<phi>. evolve (g_Hc g) (- (gamma ! i)) (evolve (g_Hm g) (- (beta ! i)) \<phi>)) [0..<g_p g] \<psi>
     = fold (\<lambda>i \<phi>. evolve (g_Hc g) (map uminus gamma ! i) (evolve (g_Hm g) (map uminus beta ! i) \<phi>)) [0..<g_p g] \<psi>"
    using assms by (intro fold_cong) simp_all
  ultimately show ?thesis
    by (simp add: create_circuit_assignment_def run_in_order_alternating)
qed

lemma create_circuit_pyquil_Inl:
  assumes "length beta < g_p g" and "length beta \<le> length gamma" and "g_Hm g \<noteq> []"
  shows "create_circuit_assignment g (Program \<psi>) beta gamma = Inl IndexError"
proof -
  define m where "m = length beta"
  have m: "m < g_p g" using assms by (simp add: m_def)
  have "\<And>i. i \<in> set [0..<m] \<Longrightarrow> i < length beta \<and> i < length gamma"
    using assms(2) by (simp add: m_def)
  then have "pyquil_steps g beta gamma [0..<m] \<psi> =
     Inr (fold (\<lambda>i \<phi>. evolve (g_Hc g) (- (gamma ! i)) (evolve (g_Hm g) (- (beta ! i)) \<phi>)) [0..<m] \<psi>)"
    by (rule pyquil_steps_Inr)
  moreover have "\<And>\<phi>. pyquil_steps g beta gamma (m # [Suc m..<g_p g]) \<phi> = Inl IndexError"
    using assms(3) by (simp add: pyquil_terms_Inl m_def)
  ultimately have "pyquil_steps g beta gamma ([0..<m] @ m # [Suc m..<g_p g]) \<psi> = Inl IndexError"
    by (simp only: pyquil_steps_append sum.case)
  then show ?thesis
    by (simp add: create_circuit_assignment_def upt_split [OF m])
qed

subsection \<open>lengths, zero angle\<close>

lemma length_apply_sigma: "length (apply_sigma z x q \<psi>) = length \<psi>"
  by (cases z; cases x) (simp_all add: apply_Z_def apply_X_def)

lemma length_apply_qubits: "length (apply_qubits zx q \<psi>) = length \<psi>"
  by (induction zx q \<psi> rule: apply_qubits.induct) (simp_all add: length_apply_sigma)

lemma length_apply_pauli: "length (apply_pauli P \<psi>) = length \<psi>"
  by (simp add: apply_pauli_def length_apply_qubits)

lemma map2_fst: "length xs \<le> length ys \<Longrightarrow> map2 (\<lambda>a b. a) xs ys = xs"
  by (induction xs arbitrary: ys) (auto simp: Suc_le_length_iff)

lemma exp_term_zero: "exp_term 0 t \<psi> = \<psi>"
  by (simp add: exp_term_def map2_fst length_apply_pauli)

lemma evolve_zero: "evolve H 0 \<psi> = \<psi>"
  by (induction H) (simp_all add: evolve_def exp_term_zero)

lemma run_zero_steps:
  "(\<And>s. s \<in> set steps \<Longrightarrow> snd s = 0) \<Longrightarrow> run_in_order steps \<psi> = \<psi>"
proof (induction steps)
  case Nil
  show ?case by (simp add: run_in_order_def)
next
  case (Cons s steps)
  have "snd s = 0" using Cons.prems by simp
  then have "run_in_order (s # steps) \<psi> = run_in_order steps \<psi>"
    by (cases s) (simp add: run_in_order_def evolve_zero)
  with Cons show ?case by simp
qed

lemma alternating_steps_zero:
  assumes "\<And>i. i \<in> set is \<Longrightarrow> as ! i = 0 \<and> bs ! i = 0"
  shows "run_in_order (alternating_steps A B as bs is) \<psi> = \<psi>"
  using assms by (intro run_zero_steps) (auto simp: alternating_steps_def split: if_splits)


subsection \<open>The objective functions in closed form\<close>

lemma evaluate_hamiltonian_eq:
  "evaluate_hamiltonian g bg H =
     (if length bg div 2 < g_p g then Inl IndexError
      else Inr (Re (expectation H
        (run_in_order
           (alternating_steps (g_Hc g) (g_Hm g)
              (drop (length bg div 2) bg) (take (length bg div 2) bg) (rev [0..<g_p g]))
           (g_init_state g)))))"
proof (cases "length bg div 2 < g_p g")
  case True
  then have "create_circuit g (take (length bg div 2) bg) (drop (length bg div 2) bg) = Inl IndexError"
    by (intro create_circuit_Inl) simp
  with True show ?thesis
    by (simp add: evaluate_hamiltonian_def Let_def)
next
  case False
  then have "create_circuit g (take (length bg div 2) bg) (drop (length bg div 2) bg) =
     Inr (run_in_order
           (alternating_steps (g_Hc g) (g_Hm g)
              (drop (length bg div 2) bg) (take (length bg div 2) bg) (rev [0..<g_p g]))
           (g_init_state g))"
    by (intro create_circuit_Inr) simp_all
  with False show ?thesis
    by (simp add: evaluate_hamiltonian_def Let_def)
qed

lemma evaluate_circuit_qiskit_eq:
  assumes "g_circuit_init g = QuantumCircuit \<psi>"
  shows "evaluate_circuit g bg =
     (if length bg div 2 < g_p g then Inl IndexError
      else if g_p g = 0 then Inl TypeError
      else Inr (Re (expectation (g_Hc g)
        (run_in_order
           (alternating_steps (g_Hc g) (g_Hm g)
              (take (length bg div 2) bg) (drop (length bg div 2) bg) [0..<g_p g])
           \<psi>))))"
proof -
  consider (short) "length bg div 2 < g_p g" | (zero) "g_p g = 0"
    | (ok) "g_p g \<le> length bg div 2" "0 < g_p g"
    by linarith
  then show ?thesis
  proof cases
    case short
    then have "create_circuit_assignment g (QuantumCircuit \<psi>)
        (take (length bg div 2) bg) (drop (length bg div 2) bg) = Inl IndexError"
      by (intro create_circuit_qiskit_Inl) simp
    with short assms show ?thesis
      by (simp add: evaluate_circuit_def Let_def)
  next
    case zero
    then show ?thesis
      using assms by (simp add: evaluate_circuit_def Let_def create_circuit_qiskit_zero)
  next
    case ok
    then have "create_circuit_assignment g (QuantumCircuit \<psi>)
        (take (length bg div 2) bg) (drop (length bg div 2) bg) =
      Inr (QuantumCircuit (run_in_order
           (alternating_steps (g_Hc g) (g_Hm g)
              (take (length bg div 2) bg) (drop (length bg div 2) bg) [0..<g_p g]) \<psi>))"
      by (intro create_circuit_qiskit_Inr) simp_all
    with ok assms show ?thesis
      by (simp add: evaluate_circuit_def Let_def)
  qed
qed

lemma evaluate_circuit_pyquil_ok:
  assumes "g_circuit_init g = Program \<psi>" and "g_p g \<le> length bg div 2"
  shows "evaluate_circuit g bg =
     (if g_Hc g = [] then Inl TypeError
      else Inr (Re (expectation (g_Hc g)
        (run_in_order
           (alternating_steps (g_Hm g) (g_Hc g)
              (map uminus (take (length bg div 2) bg)) (map uminus (drop (length bg div 2) bg))
              [0..<g_p g])
           \<psi>))))"
proof -
  have "create_circuit_assignment g (Program \<psi>)
        (take (length bg div 2) bg) (drop (length bg div 2) bg) =
      Inr (Program (run_in_order
           (alternating_steps (g_Hm g) (g_Hc g)
              (map uminus (take (length bg div 2) bg)) (map uminus (drop (length bg div 2) bg))
              [0..<g_p g]) \<psi>))"
    using assms(2) by (intro create_circuit_pyquil_Inr) simp_all
  with assms show ?thesis
    by (simp add: evaluate_circuit_def Let_def pauli_sum_def)
qed

lemma evaluate_circuit_pyquil_short:
  assumes "g_circuit_init g = Program \<psi>" and "length bg div 2 < g_p g" and "g_Hm g \<noteq> []"
  shows "evaluate_circuit g bg = Inl IndexError"
proof -
  have "create_circuit_assignment g (Program \<psi>)
        (take (length bg div 2) bg) (drop (length bg div 2) bg) = Inl IndexError"
    using assms(2,3) by (intro create_circuit_pyquil_Inl) simp_all
  with assms show ?thesis
    by (simp add: evaluate_circuit_def Let_def)
qed

subsection \<open>Two qubits: the operators on four amplitudes\<close>

lemma upt_4: "[0..<4] = [0, 1, 2, 3]"
  by (simp add: upt_rec)

lemma upt_2: "[0..<2] = [0, 1]"
  by (simp add: upt_rec)

lemma apply_X0: "apply_pauli (Pauli [False, False] [True, False]) [a, b, c, d] = [b, a, d, c]"
  by (simp add: apply_pauli_def apply_X_def flip_bit_at_def bit_of_def upt_4)

lemma apply_X1: "apply_pauli (Pauli [False, False] [False, True]) [a, b, c, d] = [c, d, a, b]"
  by (simp add: apply_pauli_def apply_X_def flip_bit_at_def bit_of_def upt_4)

lemma apply_Z0: "apply_pauli (Pauli [True, False] [False, False]) [a, b, c, d] = [a, - b, c, - d]"
  by (simp add: apply_pauli_def apply_Z_def bit_of_def upt_4)

lemma apply_ZZ: "apply_pauli (Pauli [True, True] [False, False]) [a, b, c, d] = [a, - b, - c, d]"
  by (simp add: apply_pauli_def apply_Z_def bit_of_def upt_4)

lemma apply_II: "apply_pauli (Pauli [False, False] [False, False]) \<psi> = \<psi>"
  by (simp add: apply_pauli_def)

lemma exp_term_real:
  "exp_term \<theta> (of_real r, P) \<psi> =
     map2 (\<lambda>a b. of_real (cos (\<theta> * r)) * a - \<i> * of_real (sin (\<theta> * r)) * b)
       \<psi> (apply_pauli P \<psi>)"
  by (simp add: exp_term_def)

lemma exp_term_minus_one:
  "exp_term \<theta> (- 1, P) \<psi> =
     map2 (\<lambda>a b. of_real (cos \<theta>) * a + \<i> * of_real (sin \<theta>) * b) \<psi> (apply_pauli P \<psi>)"
  using exp_term_real [of \<theta> "- 1" P \<psi>] by simp

lemma exp_term_one:
  "exp_term \<theta> (1, P) \<psi> =
     map2 (\<lambda>a b. of_real (cos \<theta>) * a - \<i> * of_real (sin \<theta>) * b) \<psi> (apply_pauli P \<psi>)"
  using exp_term_real [of \<theta> 1 P \<psi>] by simp

lemma exp_term_minus_half:
  "exp_term \<theta> (- (1 / 2), P) \<psi> =
     map2 (\<lambda>a b. of_real (cos (\<theta> / 2)) * a + \<i> * of_real (sin (\<theta> / 2)) * b)
       \<psi> (apply_pauli P \<psi>)"
  using exp_term_real [of \<theta> "- (1 / 2)" P \<psi>] by simp

lemma exp_term_coeff_zero: "exp_term \<theta> (0, P) \<psi> = \<psi>"
  by (simp add: exp_term_def map2_fst length_apply_pauli)

lemma evolve_Hm_lecture:
  "evolve (g_Hm lecture_globals) t [a, b, c, d] =
     (let C = of_real (cos t); S = \<i> * of_real (sin t) in
      [C * (C * a + S * b) + S * (C * c + S * d),
       C * (C * b + S * a) + S * (C * d + S * c),
       C * (C * c + S * d) + S * (C * a + S * b),
       C * (C * d + S * c) + S * (C * b + S * a)])"
  by (simp add: lecture_globals_def evolve_def exp_term_minus_one apply_X0 apply_X1 Let_def)

lemma evolve_Hc_lecture:
  "evolve (g_Hc lecture_globals) t [a, b, c, d] =
     (let C = of_real (cos t); S = \<i> * of_real (sin t) in
      [(C + S) * a, (C - S) * b, (C - S) * c, (C + S) * d])"
  by (simp add: lecture_globals_def evolve_def exp_term_minus_one exp_term_coeff_zero apply_ZZ
      Let_def algebra_simps)

lemma expectation_Hc_lecture:
  "expectation (g_Hc lecture_globals) [a, b, c, d] =
     - (cnj a * a) + cnj b * b + cnj c * c - cnj d * d"
  by (simp add: lecture_globals_def expectation_def apply_ZZ apply_II algebra_simps)

lemma evolve_Hm_assignment:
  "evolve (g_Hm (assignment_globals sdk p)) t [a, b, c, d] =
     (let C = of_real (cos t); S = \<i> * of_real (sin t) in
      [C * (C * a - S * b) - S * (C * c - S * d),
       C * (C * b - S * a) - S * (C * d - S * c),
       C * (C * c - S * d) - S * (C * a - S * b),
       C * (C * d - S * c) - S * (C * b - S * a)])"
  by (simp add: assignment_globals_def evolve_def exp_term_one apply_X0 apply_X1 Let_def)

lemma evolve_Hc_assignment:
  "evolve (g_Hc (assignment_globals sdk p)) t [a, b, c, d] =
     (let C = of_real (cos t); S = \<i> * of_real (sin t);
          C2 = of_real (cos (t / 2)); S2 = \<i> * of_real (sin (t / 2)) in
      [(C2 + S2) * ((C + S) * a), (C2 - S2) * ((C - S) * b),
       (C2 + S2) * ((C - S) * c), (C2 - S2) * ((C + S) * d)])"
  by (simp add: assignment_globals_def evolve_def exp_term_minus_one exp_term_minus_half
      apply_ZZ apply_Z0 Let_def algebra_simps)

lemma expectation_Hc_assignment:
  "expectation (g_Hc (assignment_globals sdk p)) [a, b, c, d] =
     - (3 / 2) * (cnj a * a) + (3 / 2) * (cnj b * b) + (1 / 2) * (cnj c * c) - (1 / 2) * (cnj d * d)"
  by (simp add: assignment_globals_def expectation_def apply_ZZ apply_Z0 algebra_simps)

subsection \<open>Closed forms of the objectives at depth one\<close>

lemma g_init_state_lecture: "g_init_state lecture_globals = [1 / 2, 1 / 2, 1 / 2, 1 / 2]"
  by (simp add: lecture_globals_def)

lemma g_p_lecture: "g_p lecture_globals = 1"
  by (simp add: lecture_globals_def)

text \<open>One step of the lecture circuit, cost evolution first: the value of the objective.\<close>

lemma lecture_cost_then_mixing:
  "Re (expectation (g_Hc lecture_globals)
     (evolve (g_Hm lecture_globals) b
       (evolve (g_Hc lecture_globals) c [1 / 2, 1 / 2, 1 / 2, 1 / 2]))) = - sin (4 * b) * sin (2 * c)"
proof -
  have s4: "sin (4 * b) = 4 * sin b * cos b * ((cos b)\<^sup>2 - (sin b)\<^sup>2)"
    using sin_double [of "2 * b"] sin_double [of b] cos_double [of b] by simp
  have s2: "sin (2 * c) = 2 * sin c * cos c"
    using sin_double [of c] by simp
  show ?thesis
    unfolding s4 s2
    by (simp add: evolve_Hm_lecture evolve_Hc_lecture expectation_Hc_lecture Let_def
        power2_eq_square algebra_simps)
qed

text \<open>The other order, mixing evolution first: the value is constant.\<close>

lemma lecture_mixing_then_cost:
  "Re (expectation (g_Hc lecture_globals)
     (evolve (g_Hc lecture_globals) c
       (evolve (g_Hm lecture_globals) b [1 / 2, 1 / 2, 1 / 2, 1 / 2]))) = 0"
  by (simp add: evolve_Hm_lecture evolve_Hc_lecture expectation_Hc_lecture Let_def
      power2_eq_square algebra_simps)


lemma run_one_step:
  "run_in_order (alternating_steps A B as bs [0]) \<psi> = evolve B (bs ! 0) (evolve A (as ! 0) \<psi>)"
  by (simp add: run_in_order_alternating)

text \<open>
  The run recorded in the lecture notebook ends at \<open>x = [1.963, 3.927]\<close>, that is
  \<open>[5 pi / 8, 5 pi / 4]\<close> to three decimals, with \<open>fun = -0.9999999999999984\<close>.
\<close>

lemma recorded_optimum:
  "evaluate_hamiltonian lecture_globals [5 * pi / 8, 5 * pi / 4] (g_Hc lecture_globals) = Inr (- 1)"
proof -
  have "sin (4 * (5 * pi / 8)) = sin (pi / 2 + 2 * pi)"
    by (simp add: field_simps)
  then have s: "sin (4 * (5 * pi / 8)) = 1"
    by (simp only: sin_periodic sin_pi_half)
  have "sin (2 * (5 * pi / 4)) = sin (pi / 2 + 2 * pi)"
    by (simp add: field_simps)
  then have t: "sin (2 * (5 * pi / 4)) = 1"
    by (simp only: sin_periodic sin_pi_half)
  have "Re (expectation (g_Hc lecture_globals)
     (evolve (g_Hm lecture_globals) (5 * pi / 8)
       (evolve (g_Hc lecture_globals) (5 * pi / 4) [1 / 2, 1 / 2, 1 / 2, 1 / 2]))) = - 1"
    unfolding lecture_cost_then_mixing s t by simp
  then show ?thesis
    by (simp add: evaluate_hamiltonian_eq g_p_lecture g_init_state_lecture run_one_step)
qed

lemma assignment_globals_sel:
  "g_p (assignment_globals sdk p) = p"
  "g_circuit_init (assignment_globals sdk p) = sdk [1 / 2, 1 / 2, 1 / 2, 1 / 2]"
  by (simp_all add: assignment_globals_def)

subsection \<open>Surplus entries of the halves\<close>

lemma alternating_steps_take:
  assumes "\<And>i. i \<in> set is \<Longrightarrow> i < k"
  shows "alternating_steps A B (take k as) (take k bs) is = alternating_steps A B as bs is"
  using assms by (simp add: alternating_steps_def cong: map_cong)

lemma alternating_steps_uminus_take:
  assumes "\<And>i. i \<in> set is \<Longrightarrow> i < k" and "k \<le> length as" and "k \<le> length bs"
  shows "alternating_steps A B (map uminus (take k as)) (map uminus (take k bs)) is =
         alternating_steps A B (map uminus as) (map uminus bs) is"
proof -
  have "map (\<lambda>i. [(A, map uminus (take k as) ! i), (B, map uminus (take k bs) ! i)]) is =
        map (\<lambda>i. [(A, map uminus as ! i), (B, map uminus bs ! i)]) is"
    using assms by (intro map_cong) (auto dest!: assms(1))
  then show ?thesis
    unfolding alternating_steps_def by (rule arg_cong)
qed

lemma evaluate_hamiltonian_halves:
  assumes "length beta = length gamma"
  shows "evaluate_hamiltonian g (beta @ gamma) H =
     (if length beta < g_p g then Inl IndexError
      else Inr (Re (expectation H
        (run_in_order (alternating_steps (g_Hc g) (g_Hm g) gamma beta (rev [0..<g_p g]))
           (g_init_state g)))))"
  using assms by (simp add: evaluate_hamiltonian_eq)

lemma evaluate_circuit_qiskit_halves:
  assumes "length beta = length gamma" and "g_circuit_init g = QuantumCircuit \<psi>"
  shows "evaluate_circuit g (beta @ gamma) =
     (if length beta < g_p g then Inl IndexError
      else if g_p g = 0 then Inl TypeError
      else Inr (Re (expectation (g_Hc g)
        (run_in_order (alternating_steps (g_Hc g) (g_Hm g) beta gamma [0..<g_p g]) \<psi>))))"
  using assms by (simp add: evaluate_circuit_qiskit_eq)

lemma evaluate_circuit_pyquil_halves:
  assumes "length beta = length gamma" and "g_circuit_init g = Program \<psi>"
    and "g_p g \<le> length beta"
  shows "evaluate_circuit g (beta @ gamma) =
     (if g_Hc g = [] then Inl TypeError
      else Inr (Re (expectation (g_Hc g)
        (run_in_order (alternating_steps (g_Hm g) (g_Hc g) (map uminus beta) (map uminus gamma)
           [0..<g_p g]) \<psi>))))"
  using assms evaluate_circuit_pyquil_ok [of g \<psi> "beta @ gamma"] by simp

subsection \<open>The globals are the values of the cells\<close>

lemma Hm_lecture_2: "Hm_lecture 2 = Inr (g_Hm lecture_globals)"
  by (simp add: Hm_lecture_def pauli_x_def getitem_def eye_def zeros_def upt_2 numeral_2_eq_2
      lecture_globals_def)

lemma Hc_lecture_2: "Hc_lecture 2 = Inr (g_Hc lecture_globals)"
  by (simp add: Hc_lecture_def product_pauli_z_def pauli_mul_def getitem_def eye_def zeros_def
      upt_2 numeral_2_eq_2 J_def lecture_globals_def)

lemma init_state_2: "init_state 2 = g_init_state lecture_globals"
  by (simp add: init_state_def lecture_globals_def numeral_eq_Suc)

lemma Hm_assignment_2: "Hm_assignment 2 = Inr (g_Hm (assignment_globals sdk p))"
  by (simp add: Hm_assignment_def pauli_x_def getitem_def eye_def zeros_def upt_2 numeral_2_eq_2
      assignment_globals_def)

lemma Hc_assignment_2: "Hc_assignment 2 = Inr (g_Hc (assignment_globals sdk p))"
  by (simp add: Hc_assignment_def product_pauli_z_def pauli_z_def pauli_mul_def getitem_def
      eye_def zeros_def upt_2 numeral_2_eq_2 assignment_globals_def)

subsection \<open>Matrices\<close>

lemma basis_4:
  "basis 4 0 = [1, 0, 0, 0]" "basis 4 (Suc 0) = [0, 1, 0, 0]"
  "basis 4 2 = [0, 0, 1, 0]" "basis 4 3 = [0, 0, 0, 1]"
  by (simp_all add: basis_def upt_4)

lemma to_matrix_2:
  "to_matrix 2 H =
     map (\<lambda>r. [apply_ham H [1, 0, 0, 0] ! r, apply_ham H [0, 1, 0, 0] ! r,
                apply_ham H [0, 0, 1, 0] ! r, apply_ham H [0, 0, 0, 1] ! r]) [0, 1, 2, 3]"
  by (simp add: to_matrix_def upt_4 basis_4)

lemma to_matrix_Hm_lecture:
  "to_matrix 2 (g_Hm lecture_globals) =
     [[0, - 1, - 1, 0], [- 1, 0, 0, - 1], [- 1, 0, 0, - 1], [0, - 1, - 1, 0]]"
  by (simp add: to_matrix_2 lecture_globals_def apply_X0 apply_X1)

lemma to_matrix_Hc_lecture:
  "to_matrix 2 (g_Hc lecture_globals) =
     [[- 1, 0, 0, 0], [0, 1, 0, 0], [0, 0, 1, 0], [0, 0, 0, - 1]]"
  by (simp add: to_matrix_2 lecture_globals_def apply_ZZ apply_II)

subsection \<open>Norm preservation on two qubits\<close>

lemma list_of_length_4:
  assumes "length \<psi> = 4"
  obtains a b c d where "\<psi> = [a, b, c, d]"
proof -
  from assms obtain a \<psi>1 where 1: "\<psi> = a # \<psi>1" "length \<psi>1 = 3"
    by (cases \<psi>) simp_all
  then obtain b \<psi>2 where 2: "\<psi>1 = b # \<psi>2" "length \<psi>2 = 2"
    by (cases \<psi>1) simp_all
  then obtain c \<psi>3 where 3: "\<psi>2 = c # \<psi>3" "length \<psi>3 = 1"
    by (cases \<psi>2) simp_all
  then obtain d where 4: "\<psi>3 = [d]"
    by (cases \<psi>3) simp_all
  from 1 2 3 4 have "\<psi> = [a, b, c, d]" by simp
  then show thesis by (rule that)
qed

lemma norm_sq_4:
  "norm_sq [a, b, c, d] =
     (Re a)\<^sup>2 + (Im a)\<^sup>2 + (Re b)\<^sup>2 + (Im b)\<^sup>2 + (Re c)\<^sup>2 + (Im c)\<^sup>2 + (Re d)\<^sup>2 + (Im d)\<^sup>2"
  by (simp add: norm_sq_def cmod_power2)

lemma norm_sq_rotation:
  fixes C S :: real
  assumes "C\<^sup>2 + S\<^sup>2 = 1"
    and "Q = [b, a, d, c] \<or> Q = [c, d, a, b] \<or> Q = [a, - b, c, - d] \<or> Q = [a, - b, - c, d]"
  shows "norm_sq (map2 (\<lambda>x y. of_real C * x - \<i> * of_real S * y) [a, b, c, d] Q) =
         norm_sq [a, b, c, d]"
proof -
  have "norm_sq (map2 (\<lambda>x y. of_real C * x - \<i> * of_real S * y) [a, b, c, d] Q) =
         (C\<^sup>2 + S\<^sup>2) * norm_sq [a, b, c, d]"
    using assms(2)
    by (elim disjE) (simp_all add: norm_sq_4 power2_eq_square algebra_simps)
  with assms(1) show ?thesis by simp
qed

lemma exp_term_unitary:
  assumes "length \<psi> = 4"
    and "P = Pauli [False, False] [True, False] \<or> P = Pauli [False, False] [False, True] \<or>
         P = Pauli [True, False] [False, False] \<or> P = Pauli [True, True] [False, False]"
  shows "length (exp_term \<theta> (of_real r, P) \<psi>) = 4 \<and>
         norm_sq (exp_term \<theta> (of_real r, P) \<psi>) = norm_sq \<psi>"
proof -
  from assms(1) obtain a b c d where \<psi>: "\<psi> = [a, b, c, d]"
    by (rule list_of_length_4)
  have Q: "apply_pauli P \<psi> = [b, a, d, c] \<or> apply_pauli P \<psi> = [c, d, a, b] \<or>
      apply_pauli P \<psi> = [a, - b, c, - d] \<or> apply_pauli P \<psi> = [a, - b, - c, d]"
    using assms(2) by (auto simp: \<psi> apply_X0 apply_X1 apply_Z0 apply_ZZ)
  have cs: "(cos (\<theta> * r))\<^sup>2 + (sin (\<theta> * r))\<^sup>2 = 1"
    by simp
  have "norm_sq (exp_term \<theta> (of_real r, P) \<psi>) = norm_sq \<psi>"
    unfolding exp_term_real \<psi> [symmetric]
    using norm_sq_rotation [OF cs, of "apply_pauli P \<psi>" b a d c] Q
    unfolding \<psi> by simp
  moreover have "length (exp_term \<theta> (of_real r, P) \<psi>) = 4"
    using assms(1) by (simp add: exp_term_def length_apply_pauli)
  ultimately show ?thesis by simp
qed

lemma evolve_assignment_unitary:
  assumes "length \<psi> = 4"
    and "H = g_Hm (assignment_globals sdk p) \<or> H = g_Hc (assignment_globals sdk p)"
  shows "length (evolve H t \<psi>) = 4 \<and> norm_sq (evolve H t \<psi>) = norm_sq \<psi>"
  using assms(2)
proof
  assume H: "H = g_Hm (assignment_globals sdk p)"
  let ?\<phi> = "exp_term t (1, Pauli [False, False] [True, False]) \<psi>"
  have 1: "length ?\<phi> = 4 \<and> norm_sq ?\<phi> = norm_sq \<psi>"
    using exp_term_unitary [OF assms(1), of "Pauli [False, False] [True, False]" t 1] by simp
  then have 2: "length (exp_term t (1, Pauli [False, False] [False, True]) ?\<phi>) = 4 \<and>
      norm_sq (exp_term t (1, Pauli [False, False] [False, True]) ?\<phi>) = norm_sq ?\<phi>"
    using exp_term_unitary [of ?\<phi> "Pauli [False, False] [False, True]" t 1] by simp
  from 1 2 show ?thesis
    by (simp add: H assignment_globals_def evolve_def)
next
  assume H: "H = g_Hc (assignment_globals sdk p)"
  let ?\<phi> = "exp_term t (- 1, Pauli [True, True] [False, False]) \<psi>"
  have 1: "length ?\<phi> = 4 \<and> norm_sq ?\<phi> = norm_sq \<psi>"
    using exp_term_unitary [OF assms(1), of "Pauli [True, True] [False, False]" t "- 1"] by simp
  then have 2: "length (exp_term t (- (1 / 2), Pauli [True, False] [False, False]) ?\<phi>) = 4 \<and>
      norm_sq (exp_term t (- (1 / 2), Pauli [True, False] [False, False]) ?\<phi>) = norm_sq ?\<phi>"
    using exp_term_unitary [of ?\<phi> "Pauli [True, False] [False, False]" t "- (1 / 2)"] by simp
  from 1 2 show ?thesis
    by (simp add: H assignment_globals_def evolve_def)
qed

lemma run_assignment_unitary:
  assumes "length \<psi> = 4"
    and "\<And>s. s \<in> set steps \<Longrightarrow>
      fst s = g_Hm (assignment_globals sdk p) \<or> fst s = g_Hc (assignment_globals sdk p)"
  shows "length (run_in_order steps \<psi>) = 4 \<and> norm_sq (run_in_order steps \<psi>) = norm_sq \<psi>"
  using assms
proof (induction steps arbitrary: \<psi>)
  case Nil
  then show ?case by (simp add: run_in_order_def)
next
  case (Cons s steps)
  obtain H t where s: "s = (H, t)" by (cases s)
  have H: "H = g_Hm (assignment_globals sdk p) \<or> H = g_Hc (assignment_globals sdk p)"
    using Cons.prems(2) [of s] by (simp add: s)
  have 1: "length (evolve H t \<psi>) = 4 \<and> norm_sq (evolve H t \<psi>) = norm_sq \<psi>"
    using Cons.prems(1) H by (rule evolve_assignment_unitary)
  have 2: "length (run_in_order steps (evolve H t \<psi>)) = 4 \<and>
      norm_sq (run_in_order steps (evolve H t \<psi>)) = norm_sq (evolve H t \<psi>)"
    using 1 Cons.prems(2) by (intro Cons.IH) simp_all
  have "run_in_order (s # steps) \<psi> = run_in_order steps (evolve H t \<psi>)"
    by (simp add: run_in_order_def s)
  with 1 2 show ?case by simp
qed

lemma alternating_steps_fst:
  "s \<in> set (alternating_steps A B as bs is) \<Longrightarrow> fst s = A \<or> fst s = B"
  by (auto simp: alternating_steps_def)

lemma weighted_sum_lower_bound:
  fixes A B C D :: real
  assumes "A + B + C + D = 1" and "0 \<le> B" and "0 \<le> C" and "0 \<le> D"
  shows "- (3 / 2) \<le> - (3 / 2) * A + (3 / 2) * B + (1 / 2) * C - (1 / 2) * D"
  using assms by linarith

lemma cost_expectation_lower_bound:
  assumes "length \<psi> = 4" and "norm_sq \<psi> = 1"
  shows "- (3 / 2) \<le> Re (expectation (g_Hc (assignment_globals sdk p)) \<psi>)"
proof -
  from assms(1) obtain a b c d where \<psi>: "\<psi> = [a, b, c, d]"
    by (rule list_of_length_4)
  have n: "(Re a)\<^sup>2 + (Im a)\<^sup>2 + (Re b)\<^sup>2 + (Im b)\<^sup>2 + (Re c)\<^sup>2 + (Im c)\<^sup>2
      + (Re d)\<^sup>2 + (Im d)\<^sup>2 = 1"
    using assms(2) by (simp add: \<psi> norm_sq_4)
  have e: "Re (expectation (g_Hc (assignment_globals sdk p)) \<psi>) =
      - (3 / 2) * ((Re a)\<^sup>2 + (Im a)\<^sup>2) + (3 / 2) * ((Re b)\<^sup>2 + (Im b)\<^sup>2)
      + (1 / 2) * ((Re c)\<^sup>2 + (Im c)\<^sup>2) - (1 / 2) * ((Re d)\<^sup>2 + (Im d)\<^sup>2)"
    by (simp add: \<psi> expectation_Hc_assignment power2_eq_square field_simps)
  have "- (3 / 2) \<le> - (3 / 2) * ((Re a)\<^sup>2 + (Im a)\<^sup>2) + (3 / 2) * ((Re b)\<^sup>2 + (Im b)\<^sup>2)
      + (1 / 2) * ((Re c)\<^sup>2 + (Im c)\<^sup>2) - (1 / 2) * ((Re d)\<^sup>2 + (Im d)\<^sup>2)"
    using n by (intro weighted_sum_lower_bound) simp_all
  with e show ?thesis by simp
qed

lemma norm_sq_uniform: "norm_sq [1 / 2, 1 / 2, 1 / 2, 1 / 2] = 1"
  by (simp add: norm_sq_4 power2_eq_square)


subsection \<open>The ground energy; schedules of two steps\<close>

lemma ground_state_energy:
  "expectation (g_Hc (assignment_globals sdk p)) [1, 0, 0, 0] = - (3 / 2)"
  by (simp add: expectation_Hc_assignment)

lemma g_Hm_assignment_nonempty: "g_Hm (assignment_globals sdk p) \<noteq> []"
  by (simp add: assignment_globals_def)

lemma g_Hc_assignment_nonempty: "g_Hc (assignment_globals sdk p) \<noteq> []"
  by (simp add: assignment_globals_def)

lemma g_init_state_assignment:
  "g_init_state (assignment_globals sdk p) = [1 / 2, 1 / 2, 1 / 2, 1 / 2]"
  by (simp add: assignment_globals_def)

lemma run_two_steps:
  "run_in_order (alternating_steps A B as bs [0, Suc 0]) \<psi> =
     evolve B (bs ! Suc 0) (evolve A (as ! Suc 0) (evolve B (bs ! 0) (evolve A (as ! 0) \<psi>)))"
  "run_in_order (alternating_steps A B as bs [Suc 0, 0]) \<psi> =
     evolve B (bs ! 0) (evolve A (as ! 0) (evolve B (bs ! Suc 0) (evolve A (as ! Suc 0) \<psi>)))"
  by (simp_all add: run_in_order_alternating)

subsection \<open>Moduli of the amplitudes under the assignment Hamiltonians\<close>

lemma cmod_cos_sin:
  "cmod (of_real (cos x) + \<i> * of_real (sin x)) = 1"
  "cmod (of_real (cos x) - \<i> * of_real (sin x)) = 1"
  by (simp_all add: cmod_def)

lemma expectation_Hc_assignment_moduli:
  "Re (expectation (g_Hc (assignment_globals sdk p)) [a, b, c, d]) =
     - (3 / 2) * (cmod a)\<^sup>2 + (3 / 2) * (cmod b)\<^sup>2 + (1 / 2) * (cmod c)\<^sup>2 - (1 / 2) * (cmod d)\<^sup>2"
proof -
  have sq: "Re (cnj z * z) = (cmod z)\<^sup>2" for z
    unfolding cmod_power2 by (simp add: power2_eq_square)
  have "Re (expectation (g_Hc (assignment_globals sdk p)) [a, b, c, d]) =
     - (3 / 2) * Re (cnj a * a) + (3 / 2) * Re (cnj b * b) + (1 / 2) * Re (cnj c * c)
       - (1 / 2) * Re (cnj d * d)"
    unfolding expectation_Hc_assignment by simp
  then show ?thesis
    unfolding sq .
qed

lemma evolve_Hc_assignment_moduli:
  obtains a' b' c' d' where
    "evolve (g_Hc (assignment_globals sdk p)) t [a, b, c, d] = [a', b', c', d']"
    "cmod a' = cmod a" "cmod b' = cmod b" "cmod c' = cmod c" "cmod d' = cmod d"
  by (rule that [OF evolve_Hc_assignment [unfolded Let_def]])
    (simp_all add: norm_mult cmod_cos_sin)

lemma evolve_Hm_assignment_half_turn:
  "evolve (g_Hm (assignment_globals sdk p)) (pi / 2) [a, b, c, d] = [- d, - c, - b, - a]"
  by (simp add: evolve_Hm_assignment Let_def)

lemma evolve_Hm_assignment_uniform:
  obtains z where
    "evolve (g_Hm (assignment_globals sdk p)) t [1 / 2, 1 / 2, 1 / 2, 1 / 2] = [z, z, z, z]"
    "cmod z = 1 / 2"
proof
  let ?w = "of_real (cos t) - \<i> * of_real (sin t) :: complex"
  show "evolve (g_Hm (assignment_globals sdk p)) t [1 / 2, 1 / 2, 1 / 2, 1 / 2] =
      [?w * ?w / 2, ?w * ?w / 2, ?w * ?w / 2, ?w * ?w / 2]"
    by (simp add: evolve_Hm_assignment Let_def algebra_simps)
  show "cmod (?w * ?w / 2) = 1 / 2"
    by (simp add: norm_mult norm_divide cmod_cos_sin)
qed

lemma assignment_half_turn_mixing:
  "Re (expectation (g_Hc (assignment_globals sdk p))
     (evolve (g_Hm (assignment_globals sdk p)) (pi / 2)
       (evolve (g_Hc (assignment_globals sdk p)) c [1 / 2, 1 / 2, 1 / 2, 1 / 2]))) = 0"
proof -
  obtain a' b' c' d' where
    e: "evolve (g_Hc (assignment_globals sdk p)) c [1 / 2, 1 / 2, 1 / 2, 1 / 2] = [a', b', c', d']"
    and m: "cmod a' = cmod (1 / 2 :: complex)" "cmod b' = cmod (1 / 2 :: complex)"
      "cmod c' = cmod (1 / 2 :: complex)" "cmod d' = cmod (1 / 2 :: complex)"
    by (rule evolve_Hc_assignment_moduli)
  show ?thesis
    unfolding e evolve_Hm_assignment_half_turn expectation_Hc_assignment_moduli
    by (simp add: m)
qed

lemma assignment_mixing_then_cost:
  "Re (expectation (g_Hc (assignment_globals sdk p))
     (evolve (g_Hc (assignment_globals sdk p)) c
       (evolve (g_Hm (assignment_globals sdk p)) b [1 / 2, 1 / 2, 1 / 2, 1 / 2]))) = 0"
proof -
  obtain z where
    u: "evolve (g_Hm (assignment_globals sdk p)) b [1 / 2, 1 / 2, 1 / 2, 1 / 2] = [z, z, z, z]"
    and z: "cmod z = 1 / 2"
    by (rule evolve_Hm_assignment_uniform)
  obtain a' b' c' d' where
    e: "evolve (g_Hc (assignment_globals sdk p)) c [z, z, z, z] = [a', b', c', d']"
    and m: "cmod a' = cmod z" "cmod b' = cmod z" "cmod c' = cmod z" "cmod d' = cmod z"
    by (rule evolve_Hc_assignment_moduli)
  show ?thesis
    unfolding u e expectation_Hc_assignment_moduli
    by (simp add: m z)
qed

section \<open>The claims\<close>

text \<open>
  Claim C1, as the specification states it, fails. On the lecture notebook with \<open>p = 1\<close>
  and the parameter vector \<open>[pi/8, pi/4]\<close> the objective returns \<open>-1\<close>, while the state
  prepared in the order of the specification (mixing evolution for \<open>beta[0]\<close>, then cost
  evolution for \<open>gamma[0]\<close>) has cost expectation \<open>0\<close>. Moreover the objectives of the two
  notebooks do not prepare the same state: on the globals of the assignment notebook with
  \<open>p = 1\<close> and the vector \<open>[pi/2, pi/4]\<close>, \<open>evaluate_circuit\<close> (Qiskit branch) returns
  \<open>-1/2\<close> where \<open>evaluate_hamiltonian\<close> returns \<open>0\<close>, as the order of the specification
  does; so no single order of the evolutions describes both.
\<close>

theorem code_order_differs_from_spec_order:
  "evaluate_hamiltonian lecture_globals [pi / 8, pi / 4] (g_Hc lecture_globals) = Inr (- 1) \<and>
   Re (expectation (g_Hc lecture_globals)
     (spec_prepare lecture_globals (g_init_state lecture_globals) [pi / 8] [pi / 4])) = 0 \<and>
   evaluate_circuit (assignment_globals QuantumCircuit 1) [pi / 2, pi / 4] = Inr (- (1 / 2)) \<and>
   evaluate_hamiltonian (assignment_globals QuantumCircuit 1) [pi / 2, pi / 4]
     (g_Hc (assignment_globals QuantumCircuit 1)) = Inr 0 \<and>
   Re (expectation (g_Hc (assignment_globals QuantumCircuit 1))
     (spec_prepare (assignment_globals QuantumCircuit 1)
        (g_init_state (assignment_globals QuantumCircuit 1)) [pi / 2] [pi / 4])) = 0"
proof -
  have 1: "evaluate_hamiltonian lecture_globals [pi / 8, pi / 4] (g_Hc lecture_globals) = Inr (- 1) \<and>
     Re (expectation (g_Hc lecture_globals)
       (spec_prepare lecture_globals (g_init_state lecture_globals) [pi / 8] [pi / 4])) = 0"
    by (simp add: evaluate_hamiltonian_eq spec_prepare_def g_p_lecture g_init_state_lecture
        run_one_step lecture_cost_then_mixing lecture_mixing_then_cost)
  have 2: "evaluate_circuit (assignment_globals QuantumCircuit 1) [pi / 2, pi / 4] = Inr (- (1 / 2))"
    by (simp add: evaluate_circuit_qiskit_eq assignment_globals_sel run_one_step
        evolve_Hm_assignment evolve_Hc_assignment expectation_Hc_assignment Let_def cos_45 sin_45)
  have 3: "evaluate_hamiltonian (assignment_globals QuantumCircuit 1) [pi / 2, pi / 4]
     (g_Hc (assignment_globals QuantumCircuit 1)) = Inr 0"
    by (simp add: evaluate_hamiltonian_eq assignment_globals_sel g_init_state_assignment
        run_one_step assignment_half_turn_mixing)
  have 4: "Re (expectation (g_Hc (assignment_globals QuantumCircuit 1))
     (spec_prepare (assignment_globals QuantumCircuit 1)
        (g_init_state (assignment_globals QuantumCircuit 1)) [pi / 2] [pi / 4])) = 0"
    by (simp add: spec_prepare_def assignment_globals_sel g_init_state_assignment
        run_one_step assignment_mixing_then_cost)
  from 1 2 3 4 show ?thesis by simp
qed

text \<open>
  Claim C1, amended. For every parameter vector of length \<open>2 p\<close> the objective splits it
  into the first half \<open>beta\<close> and the second half \<open>gamma\<close> and returns the real part of
  the expectation in the state prepared from the initial state as follows. Lecture notebook
  (\<open>evaluate_hamiltonian\<close>): the operator product
  \<open>U(Hm, beta[0]) U(Hc, gamma[0]) ... U(Hm, beta[p-1]) U(Hc, gamma[p-1])\<close> of the
  notebook's text acts on the initial state, that is, for \<open>i = p - 1\<close> down to \<open>0\<close>, the
  cost evolution for \<open>gamma[i]\<close> is followed by the mixing evolution for \<open>beta[i]\<close>.
  Assignment notebook, PyQuil branch of \<open>evaluate_circuit\<close> (\<open>Hc\<close> a non-empty list): for
  \<open>i = 0\<close> up to \<open>p - 1\<close>, the mixing evolution for \<open>-beta[i]\<close> is followed by the cost
  evolution for \<open>-gamma[i]\<close>. (The Qiskit branch of \<open>evaluate_circuit\<close> is left out here;
  its state is given by lemma \<open>evaluate_circuit_qiskit_eq\<close>.)
\<close>

theorem prepared_state_by_notebook:
  assumes "length bg = 2 * g_p g"
  shows "evaluate_hamiltonian g bg H =
           Inr (Re (expectation H
             (run_in_order
                (alternating_steps (g_Hc g) (g_Hm g) (drop (g_p g) bg) (take (g_p g) bg)
                   (rev [0..<g_p g]))
                (g_init_state g)))) \<and>
         (g_circuit_init g = Program \<psi> \<and> g_Hc g \<noteq> [] \<longrightarrow>
            evaluate_circuit g bg =
              Inr (Re (expectation (g_Hc g)
                (run_in_order
                   (alternating_steps (g_Hm g) (g_Hc g)
                      (map uminus (take (g_p g) bg)) (map uminus (drop (g_p g) bg)) [0..<g_p g])
                   \<psi>))))"
proof -
  have n: "length bg div 2 = g_p g" using assms by simp
  show ?thesis
    by (simp add: evaluate_hamiltonian_eq evaluate_circuit_pyquil_ok n)
qed

text \<open>
  The amended claim C1 at \<open>p = 1\<close>: the lecture objective at \<open>[pi/8, pi/4]\<close> and the
  PyQuil branch of the assignment objective at \<open>[pi/2, pi/4]\<close>.
\<close>

theorem prepared_state_by_notebook_witness:
  "evaluate_hamiltonian lecture_globals [pi / 8, pi / 4] (g_Hc lecture_globals) = Inr (- 1) \<and>
   evaluate_circuit (assignment_globals Program 1) [pi / 2, pi / 4] = Inr 0"
proof -
  have l: "length [pi / 8, pi / 4] = 2 * g_p lecture_globals"
    by (simp add: g_p_lecture)
  have q: "length [pi / 2, pi / 4] = 2 * g_p (assignment_globals Program 1)"
    by (simp add: assignment_globals_sel)
  have "evaluate_hamiltonian lecture_globals [pi / 8, pi / 4] (g_Hc lecture_globals) = Inr (- 1)"
    using prepared_state_by_notebook [OF l, where H = "g_Hc lecture_globals"]
    by (simp add: g_p_lecture g_init_state_lecture run_one_step lecture_cost_then_mixing)
  moreover have "evaluate_circuit (assignment_globals Program 1) [pi / 2, pi / 4] = Inr 0"
    using prepared_state_by_notebook [OF q, where \<psi> = "[1 / 2, 1 / 2, 1 / 2, 1 / 2]"]
    by (simp add: assignment_globals_sel g_Hc_assignment_nonempty run_one_step
        assignment_mixing_then_cost)
  ultimately show ?thesis by simp
qed

text \<open>
  Claim C2. For \<open>n_qubits = 2\<close>, the mixing Hamiltonian built as the sum of the two
  single-qubit X operators (\<open>pauli_x(0, 1) + pauli_x(1, 1)\<close>) has the matrix
  \<open>[[0,1,1,0],[1,0,0,1],[1,0,0,1],[0,1,1,0]]\<close>, and the cost Hamiltonian
  \<open>-Z0 Z1 - 0.5 Z0\<close> (\<open>product_pauli_z(0, 1, -1) + pauli_z(0, -0.5)\<close>) is diagonal with
  the entries \<open>-1.5, 1.5, 0.5, -0.5\<close>. (The lecture notebook builds \<open>Hm\<close> with the
  coefficient \<open>-1\<close> and \<open>Hc = -Z0 Z1\<close>; their matrices are in \<open>to_matrix_Hm_lecture\<close>
  and \<open>to_matrix_Hc_lecture\<close>.)
\<close>

theorem hamiltonian_fixtures:
  "Hm_assignment 2 = Inr (g_Hm (assignment_globals sdk p)) \<and>
   to_matrix 2 (g_Hm (assignment_globals sdk p)) =
     [[0, 1, 1, 0], [1, 0, 0, 1], [1, 0, 0, 1], [0, 1, 1, 0]] \<and>
   Hc_assignment 2 = Inr (g_Hc (assignment_globals sdk p)) \<and>
   to_matrix 2 (g_Hc (assignment_globals sdk p)) =
     [[- (3 / 2), 0, 0, 0], [0, 3 / 2, 0, 0], [0, 0, 1 / 2, 0], [0, 0, 0, - (1 / 2)]]"
proof -
  have "to_matrix 2 (g_Hm (assignment_globals sdk p)) =
     [[0, 1, 1, 0], [1, 0, 0, 1], [1, 0, 0, 1], [0, 1, 1, 0]]"
    by (simp add: to_matrix_2 assignment_globals_def apply_X0 apply_X1)
  moreover have "to_matrix 2 (g_Hc (assignment_globals sdk p)) =
     [[- (3 / 2), 0, 0, 0], [0, 3 / 2, 0, 0], [0, 0, 1 / 2, 0], [0, 0, 0, - (1 / 2)]]"
    by (simp add: to_matrix_2 assignment_globals_def apply_ZZ apply_Z0)
  ultimately show ?thesis
    using Hm_assignment_2 [of sdk p] Hc_assignment_2 [of sdk p] by simp
qed

text \<open>
  Claim C3. For every depth \<open>p\<close>, the objective \<open>evaluate_hamiltonian\<close> applied to the
  all-zero parameter vector of length \<open>2 p\<close> returns exactly the expectation value (its
  real part, as for every input) of the measured observable, in particular of the cost
  observable, in the untouched initial state: every evolution for duration zero is the
  identity.
\<close>

theorem zero_vector_initial_expectation:
  "evaluate_hamiltonian g (replicate (2 * g_p g) 0) hamiltonian =
     Inr (Re (expectation hamiltonian (g_init_state g)))"
proof -
  have "run_in_order
          (alternating_steps (g_Hc g) (g_Hm g) (replicate (g_p g) 0) (replicate (g_p g) 0)
             (rev [0..<g_p g]))
          (g_init_state g) = g_init_state g"
    by (intro alternating_steps_zero) simp
  then show ?thesis
    by (simp add: evaluate_hamiltonian_eq)
qed

text \<open>
  Claim C4. On the cost Hamiltonian \<open>-Z0 Z1 - 0.5 Z0\<close> (with the mixing Hamiltonian
  \<open>X0 + X1\<close> and the uniform initial state), for every depth \<open>p\<close> and every parameter
  vector, each value the objective returns is at least \<open>-1.5\<close>, the least eigenvalue
  (lemma \<open>ground_state_energy\<close>: it is the energy of the basis state 00). The optimizer's
  \<open>result.fun\<close> is the objective's value at \<open>result.x\<close>, so it never undershoots the ground
  energy. Every evolution preserves the norm of the state, and the expectation of the
  diagonal cost matrix in a unit vector is a weighted mean of its diagonal.
\<close>

theorem objective_never_below_ground_energy:
  assumes "sdk = QuantumCircuit \<or> sdk = Program"
  shows "(evaluate_circuit (assignment_globals sdk p) bg = Inr v \<longrightarrow> - (3 / 2) \<le> v) \<and>
         (evaluate_hamiltonian (assignment_globals sdk p) bg (g_Hc (assignment_globals sdk p)) = Inr v
            \<longrightarrow> - (3 / 2) \<le> v)"
proof (intro conjI impI)
  let ?g = "assignment_globals sdk p"
  let ?u = "[1 / 2, 1 / 2, 1 / 2, 1 / 2] :: state"
  have bound: "- (3 / 2) \<le> Re (expectation (g_Hc ?g)
      (run_in_order (alternating_steps A B as bs is) ?u))"
    if "A = g_Hm ?g \<and> B = g_Hc ?g \<or> A = g_Hc ?g \<and> B = g_Hm ?g" for A B as bs "is"
  proof -
    have "\<And>s. s \<in> set (alternating_steps A B as bs is) \<Longrightarrow> fst s = g_Hm ?g \<or> fst s = g_Hc ?g"
      using that alternating_steps_fst [of _ A B as bs "is"] by auto
    then have "length (run_in_order (alternating_steps A B as bs is) ?u) = 4 \<and>
        norm_sq (run_in_order (alternating_steps A B as bs is) ?u) = norm_sq ?u"
      by (intro run_assignment_unitary) simp_all
    then show ?thesis
      by (intro cost_expectation_lower_bound) (simp_all add: norm_sq_uniform)
  qed
  {
    assume r: "evaluate_circuit ?g bg = Inr v"
    from assms show "- (3 / 2) \<le> v"
    proof
      assume "sdk = QuantumCircuit"
      then have c: "g_circuit_init ?g = QuantumCircuit ?u"
        by (simp add: assignment_globals_sel)
      from r have "v = Re (expectation (g_Hc ?g) (run_in_order
          (alternating_steps (g_Hc ?g) (g_Hm ?g) (take (length bg div 2) bg)
             (drop (length bg div 2) bg) [0..<g_p ?g]) ?u))"
        unfolding evaluate_circuit_qiskit_eq [OF c] by (simp split: if_splits)
      then show ?thesis
        using bound by simp
    next
      assume "sdk = Program"
      then have c: "g_circuit_init ?g = Program ?u"
        by (simp add: assignment_globals_sel)
      have le: "g_p ?g \<le> length bg div 2"
      proof (rule ccontr)
        assume "\<not> g_p ?g \<le> length bg div 2"
        then have "evaluate_circuit ?g bg = Inl IndexError"
          using c g_Hm_assignment_nonempty by (intro evaluate_circuit_pyquil_short) simp_all
        with r show False by simp
      qed
      from r have "v = Re (expectation (g_Hc ?g) (run_in_order
          (alternating_steps (g_Hm ?g) (g_Hc ?g) (map uminus (take (length bg div 2) bg))
             (map uminus (drop (length bg div 2) bg)) [0..<g_p ?g]) ?u))"
        unfolding evaluate_circuit_pyquil_ok [OF c le] by (simp split: if_splits)
      then show ?thesis
        using bound by simp
    qed
  }
  {
    assume "evaluate_hamiltonian ?g bg (g_Hc ?g) = Inr v"
    then have "v = Re (expectation (g_Hc ?g) (run_in_order
          (alternating_steps (g_Hc ?g) (g_Hm ?g) (drop (length bg div 2) bg)
             (take (length bg div 2) bg) (rev [0..<g_p ?g])) ?u))"
      unfolding evaluate_hamiltonian_eq by (simp add: g_init_state_assignment split: if_splits)
    then show "- (3 / 2) \<le> v"
      using bound by simp
  }
qed

text \<open>
  Claim C4 at \<open>p = 2\<close>: the assignment objective at \<open>[pi/2, 0, 0, pi/4]\<close> and the lecture
  objective at the zero vector.
\<close>

theorem objective_never_below_ground_energy_witness:
  "evaluate_circuit (assignment_globals QuantumCircuit 2) [pi / 2, 0, 0, pi / 4] = Inr (- (1 / 2)) \<and>
   evaluate_hamiltonian (assignment_globals QuantumCircuit 2) [0, 0, 0, 0]
     (g_Hc (assignment_globals QuantumCircuit 2)) = Inr 0 \<and>
   - (3 / 2) \<le> (- (1 / 2) :: real) \<and> - (3 / 2) \<le> (0 :: real)"
proof -
  have q: "QuantumCircuit = QuantumCircuit \<or> QuantumCircuit = Program" by simp
  have 1: "evaluate_circuit (assignment_globals QuantumCircuit 2) [pi / 2, 0, 0, pi / 4] = Inr (- (1 / 2))"
    by (simp add: evaluate_circuit_qiskit_eq assignment_globals_sel upt_2 run_two_steps evolve_zero
        evolve_Hm_assignment evolve_Hc_assignment expectation_Hc_assignment Let_def cos_45 sin_45)
  have 2: "evaluate_hamiltonian (assignment_globals QuantumCircuit 2) [0, 0, 0, 0]
     (g_Hc (assignment_globals QuantumCircuit 2)) = Inr 0"
    by (simp add: evaluate_hamiltonian_eq assignment_globals_sel g_init_state_assignment upt_2
        run_two_steps evolve_zero expectation_Hc_assignment)
  show ?thesis
    using objective_never_below_ground_energy [OF q, of 2 "[pi / 2, 0, 0, pi / 4]" "- (1 / 2)"]
      objective_never_below_ground_energy [OF q, of 2 "[0, 0, 0, 0]" 0] 1 2
    by simp
qed

text \<open>
  Claim C5, as the specification states it, fails: the objective has no check of the
  imaginary part. For the non-Hermitian observable \<open>pauli_x(0, 1j)\<close> the expectation in
  the state of the parameter vector \<open>[0, 0]\<close> is \<open>i\<close>, and the objective returns its real
  part \<open>0\<close> without an error.
\<close>

theorem imaginary_part_silently_dropped:
  "pauli_x 2 0 \<i> = Inr (\<i>, Pauli [False, False] [True, False]) \<and>
   create_circuit lecture_globals [0] [0] = Inr [1 / 2, 1 / 2, 1 / 2, 1 / 2] \<and>
   expectation [(\<i>, Pauli [False, False] [True, False])] [1 / 2, 1 / 2, 1 / 2, 1 / 2] = \<i> \<and>
   evaluate_hamiltonian lecture_globals [0, 0] [(\<i>, Pauli [False, False] [True, False])] = Inr 0"
proof -
  have "pauli_x 2 0 \<i> = Inr (\<i>, Pauli [False, False] [True, False])"
    by (simp add: pauli_x_def getitem_def eye_def zeros_def upt_2 numeral_2_eq_2)
  moreover have "create_circuit lecture_globals [0] [0] = Inr [1 / 2, 1 / 2, 1 / 2, 1 / 2]"
    by (simp add: create_circuit_Inr g_p_lecture g_init_state_lecture run_one_step evolve_zero)
  moreover have "expectation [(\<i>, Pauli [False, False] [True, False])] [1 / 2, 1 / 2, 1 / 2, 1 / 2] = \<i>"
    by (simp add: expectation_def apply_X0)
  moreover have "evaluate_hamiltonian lecture_globals [0, 0] [(\<i>, Pauli [False, False] [True, False])] = Inr 0"
    by (simp add: evaluate_hamiltonian_eq g_p_lecture g_init_state_lecture run_one_step evolve_zero
        expectation_def apply_X0)
  ultimately show ?thesis by simp
qed

text \<open>
  Claim C5, amended. Whenever circuit construction succeeds (\<open>p \<le> len(beta_gamma) // 2\<close>)
  the lecture objective \<open>evaluate_hamiltonian\<close> returns the real part of the expectation
  value of the measured observable in the prepared state, whatever its imaginary part: it
  reports no error for an expectation that is not real. (The assignment objective
  \<open>evaluate_circuit\<close> is left out: it measures the global \<open>Hc\<close> that it also evolves
  under, a Hermitian observable in the notebook, whose expectation is real.)
\<close>

theorem objective_returns_real_part:
  assumes "g_p g \<le> length bg div 2"
  shows "\<exists>\<phi>. create_circuit g (take (length bg div 2) bg) (drop (length bg div 2) bg) = Inr \<phi> \<and>
             evaluate_hamiltonian g bg H = Inr (Re (expectation H \<phi>))"
proof -
  let ?n = "length bg div 2"
  have "create_circuit g (take ?n bg) (drop ?n bg) =
     Inr (run_in_order (alternating_steps (g_Hc g) (g_Hm g) (drop ?n bg) (take ?n bg)
        (rev [0..<g_p g])) (g_init_state g))"
    using assms by (intro create_circuit_Inr) simp_all
  then show ?thesis
    by (simp add: evaluate_hamiltonian_def Let_def)
qed

text \<open>
  The amended claim C5 at the parameter vector \<open>[0, 0]\<close> with \<open>p = 1\<close>, for the
  non-Hermitian observable \<open>pauli_x(0, 1 + 1j)\<close>: the prepared state is the initial
  state, the imaginary part of the expectation has modulus \<open>1\<close>, and the objective
  returns the real part \<open>1\<close>.
\<close>

theorem objective_returns_real_part_witness:
  "create_circuit lecture_globals [0] [0] = Inr [1 / 2, 1 / 2, 1 / 2, 1 / 2] \<and>
   \<bar>Im (expectation [(1 + \<i>, Pauli [False, False] [True, False])] [1 / 2, 1 / 2, 1 / 2, 1 / 2])\<bar> = 1 \<and>
   evaluate_hamiltonian lecture_globals [0, 0] [(1 + \<i>, Pauli [False, False] [True, False])] = Inr 1"
proof -
  have a: "g_p lecture_globals \<le> length [0 :: real, 0] div 2"
    by (simp add: lecture_globals_def)
  have c: "create_circuit lecture_globals [0] [0] = Inr [1 / 2, 1 / 2, 1 / 2, 1 / 2]"
    by (simp add: create_circuit_Inr g_p_lecture g_init_state_lecture run_one_step evolve_zero)
  have e: "expectation [(1 + \<i>, Pauli [False, False] [True, False])] [1 / 2, 1 / 2, 1 / 2, 1 / 2] = 1 + \<i>"
    by (simp add: expectation_def apply_X0 algebra_simps)
  show ?thesis
    using objective_returns_real_part [OF a, where H = "[(1 + \<i>, Pauli [False, False] [True, False])]"] c e
    by simp
qed




text \<open>
  Claim C7. For \<open>p = 2\<close> the objective is not invariant under swapping the two
  \<open>(beta, gamma)\<close> pairs, that is under \<open>[b0, b1, c0, c1] \<mapsto> [b1, b0, c1, c0]\<close>: for the
  lecture objective \<open>[pi/8, 0, 0, pi/4]\<close> gives \<open>-1\<close> and the swapped vector gives \<open>0\<close>;
  for the Qiskit branch of the assignment objective \<open>[pi/2, 0, 0, pi/4]\<close> gives \<open>-1/2\<close> and
  the swapped vector \<open>0\<close>; for its PyQuil branch \<open>[0, pi/4, pi/2, 0]\<close> gives \<open>-1/2\<close> and
  the swapped vector \<open>0\<close>.
\<close>

theorem step_order_matters:
  "evaluate_hamiltonian (lecture_globals\<lparr>g_p := 2\<rparr>) [pi / 8, 0, 0, pi / 4] (g_Hc lecture_globals) = Inr (- 1) \<and>
   evaluate_hamiltonian (lecture_globals\<lparr>g_p := 2\<rparr>) [0, pi / 8, pi / 4, 0] (g_Hc lecture_globals) = Inr 0 \<and>
   evaluate_circuit (assignment_globals QuantumCircuit 2) [pi / 2, 0, 0, pi / 4] = Inr (- (1 / 2)) \<and>
   evaluate_circuit (assignment_globals QuantumCircuit 2) [0, pi / 2, pi / 4, 0] = Inr 0 \<and>
   evaluate_circuit (assignment_globals Program 2) [0, pi / 4, pi / 2, 0] = Inr (- (1 / 2)) \<and>
   evaluate_circuit (assignment_globals Program 2) [pi / 4, 0, 0, pi / 2] = Inr 0"
proof -
  have l: "g_Hm (lecture_globals\<lparr>g_p := 2\<rparr>) = g_Hm lecture_globals"
      "g_Hc (lecture_globals\<lparr>g_p := 2\<rparr>) = g_Hc lecture_globals"
    by simp_all
  have 1: "evaluate_hamiltonian (lecture_globals\<lparr>g_p := 2\<rparr>) [pi / 8, 0, 0, pi / 4] (g_Hc lecture_globals) = Inr (- 1)"
    by (simp add: evaluate_hamiltonian_eq l g_init_state_lecture upt_2 run_two_steps evolve_zero
        lecture_cost_then_mixing)
  have 2: "evaluate_hamiltonian (lecture_globals\<lparr>g_p := 2\<rparr>) [0, pi / 8, pi / 4, 0] (g_Hc lecture_globals) = Inr 0"
    by (simp add: evaluate_hamiltonian_eq l g_init_state_lecture upt_2 run_two_steps evolve_zero
        lecture_mixing_then_cost)
  have 3: "evaluate_circuit (assignment_globals QuantumCircuit 2) [pi / 2, 0, 0, pi / 4] = Inr (- (1 / 2))"
    by (simp add: evaluate_circuit_qiskit_eq assignment_globals_sel upt_2 run_two_steps evolve_zero
        evolve_Hm_assignment evolve_Hc_assignment expectation_Hc_assignment Let_def cos_45 sin_45)
  have 4: "evaluate_circuit (assignment_globals QuantumCircuit 2) [0, pi / 2, pi / 4, 0] = Inr 0"
    by (simp add: evaluate_circuit_qiskit_eq assignment_globals_sel upt_2 run_two_steps evolve_zero
        evolve_Hm_assignment evolve_Hc_assignment expectation_Hc_assignment Let_def cos_45 sin_45)
  have 5: "evaluate_circuit (assignment_globals Program 2) [0, pi / 4, pi / 2, 0] = Inr (- (1 / 2))"
    by (simp add: evaluate_circuit_pyquil_ok assignment_globals_sel g_Hc_assignment_nonempty upt_2
        run_two_steps evolve_zero evolve_Hm_assignment evolve_Hc_assignment
        expectation_Hc_assignment Let_def cos_45 sin_45)
  have 6: "evaluate_circuit (assignment_globals Program 2) [pi / 4, 0, 0, pi / 2] = Inr 0"
    by (simp add: evaluate_circuit_pyquil_ok assignment_globals_sel g_Hc_assignment_nonempty upt_2
        run_two_steps evolve_zero evolve_Hm_assignment evolve_Hc_assignment
        expectation_Hc_assignment Let_def cos_45 sin_45)
  from 1 2 3 4 5 6 show ?thesis by simp
qed

text \<open>
  Claim C10. The objective functions perform no input-length validation and take the
  number of steps from the global \<open>p\<close>. For an input \<open>beta @ gamma\<close> with halves of
  length \<open>m\<close>: if \<open>m > p\<close> the surplus entries of each half are ignored, the result is
  that for the first \<open>p\<close> entries of \<open>beta\<close> and of \<open>gamma\<close>, and it is a value, not an
  error (for \<open>evaluate_circuit\<close> given \<open>p > 0\<close> and a non-empty \<open>Hc\<close>, without which such
  a vector meets a \<open>TypeError\<close>); if \<open>m < p\<close> circuit construction fails with
  \<open>IndexError\<close>, before any expectation is computed. (For the PyQuil branch the angle is
  read once per term of \<open>Hm\<close>, which the notebook asserts to have \<open>n_qubits\<close> terms.)
\<close>

theorem surplus_ignored_shortage_raises:
  assumes "length beta = m" and "length gamma = m"
    and "g_circuit_init g = QuantumCircuit \<psi> \<or> g_circuit_init g = Program \<psi> \<and> g_Hm g \<noteq> []"
  shows "(g_p g < m \<longrightarrow>
            evaluate_hamiltonian g (beta @ gamma) H =
              evaluate_hamiltonian g (take (g_p g) beta @ take (g_p g) gamma) H \<and>
            (\<exists>v. evaluate_hamiltonian g (beta @ gamma) H = Inr v) \<and>
            evaluate_circuit g (beta @ gamma) =
              evaluate_circuit g (take (g_p g) beta @ take (g_p g) gamma) \<and>
            (0 < g_p g \<and> g_Hc g \<noteq> [] \<longrightarrow> (\<exists>v. evaluate_circuit g (beta @ gamma) = Inr v))) \<and>
         (m < g_p g \<longrightarrow>
            create_circuit g beta gamma = Inl IndexError \<and>
            evaluate_hamiltonian g (beta @ gamma) H = Inl IndexError \<and>
            create_circuit_assignment g (g_circuit_init g) beta gamma = Inl IndexError \<and>
            evaluate_circuit g (beta @ gamma) = Inl IndexError)"
proof (intro conjI impI)
  let ?p = "g_p g"
  have eq: "length beta = length gamma"
    using assms(1,2) by simp
  {
    assume less: "?p < m"
    have teq: "length (take ?p beta) = length (take ?p gamma)"
      using eq by simp
    have tlen: "length (take ?p beta) = ?p"
      using less assms(1) by simp
    have a1: "alternating_steps A B (take ?p gamma) (take ?p beta) (rev [0..<?p]) =
          alternating_steps A B gamma beta (rev [0..<?p])" for A B
      by (rule alternating_steps_take) simp
    have a2: "alternating_steps A B (take ?p beta) (take ?p gamma) [0..<?p] =
          alternating_steps A B beta gamma [0..<?p]" for A B
      by (rule alternating_steps_take) simp
    have a3: "alternating_steps A B (map uminus (take ?p beta)) (map uminus (take ?p gamma)) [0..<?p] =
          alternating_steps A B (map uminus beta) (map uminus gamma) [0..<?p]" for A B
      using less assms(1,2) by (intro alternating_steps_uminus_take) simp_all
    have big: "\<not> length beta < ?p"
      using less assms(1) by simp
    show "evaluate_hamiltonian g (beta @ gamma) H =
        evaluate_hamiltonian g (take ?p beta @ take ?p gamma) H"
      unfolding evaluate_hamiltonian_halves [OF eq] evaluate_hamiltonian_halves [OF teq] tlen a1
      using big by simp
    show "\<exists>v. evaluate_hamiltonian g (beta @ gamma) H = Inr v"
      unfolding evaluate_hamiltonian_halves [OF eq] using big by simp
    show "evaluate_circuit g (beta @ gamma) = evaluate_circuit g (take ?p beta @ take ?p gamma)"
      using assms(3)
    proof
      assume c: "g_circuit_init g = QuantumCircuit \<psi>"
      show ?thesis
        unfolding evaluate_circuit_qiskit_halves [OF eq c]
          evaluate_circuit_qiskit_halves [OF teq c] tlen a2
        using big by simp
    next
      assume "g_circuit_init g = Program \<psi> \<and> g_Hm g \<noteq> []"
      then have c: "g_circuit_init g = Program \<psi>" by simp
      have le1: "?p \<le> length beta" using big by simp
      have le2: "?p \<le> length (take ?p beta)" using tlen by simp
      show ?thesis
        unfolding evaluate_circuit_pyquil_halves [OF eq c le1]
          evaluate_circuit_pyquil_halves [OF teq c le2] a3
        by (rule refl)
    qed
    {
      assume pos: "0 < ?p \<and> g_Hc g \<noteq> []"
      show "\<exists>v. evaluate_circuit g (beta @ gamma) = Inr v"
        using assms(3)
      proof
        assume c: "g_circuit_init g = QuantumCircuit \<psi>"
        show ?thesis
          unfolding evaluate_circuit_qiskit_halves [OF eq c] using big pos by simp
      next
        assume "g_circuit_init g = Program \<psi> \<and> g_Hm g \<noteq> []"
        then have c: "g_circuit_init g = Program \<psi>" by simp
        have le1: "?p \<le> length beta" using big by simp
        show ?thesis
          unfolding evaluate_circuit_pyquil_halves [OF eq c le1] using pos by simp
      qed
    }
  }
  {
    assume less: "m < ?p"
    have short: "length beta < ?p"
      using less assms(1) by simp
    show "create_circuit g beta gamma = Inl IndexError"
      using short by (intro create_circuit_Inl) simp
    show "evaluate_hamiltonian g (beta @ gamma) H = Inl IndexError"
      unfolding evaluate_hamiltonian_halves [OF eq] using short by simp
    show "create_circuit_assignment g (g_circuit_init g) beta gamma = Inl IndexError"
      using assms(3) short eq by (auto simp: create_circuit_qiskit_Inl create_circuit_pyquil_Inl)
    show "evaluate_circuit g (beta @ gamma) = Inl IndexError"
      using assms(3)
    proof
      assume c: "g_circuit_init g = QuantumCircuit \<psi>"
      show ?thesis
        unfolding evaluate_circuit_qiskit_halves [OF eq c] using short by simp
    next
      assume c: "g_circuit_init g = Program \<psi> \<and> g_Hm g \<noteq> []"
      have "length (beta @ gamma) div 2 < ?p"
        using short eq by simp
      with c show ?thesis
        by (intro evaluate_circuit_pyquil_short [where \<psi> = \<psi>]) simp_all
    qed
  }
qed

text \<open>
  Claim C10 on concrete inputs. Over-long vectors, whose last entries 7 and 9 are ignored:
  the lecture objective at \<open>p = 1\<close> returns \<open>-1\<close>, the value at \<open>[pi/8, pi/4]\<close>; the
  Qiskit branch of the assignment objective at \<open>p = 1\<close> returns \<open>-1/2\<close>, the value at
  \<open>[pi/2, pi/4]\<close>; its PyQuil branch at \<open>p = 2\<close> returns \<open>-1/2\<close>, the value at
  \<open>[0, pi/4, pi/2, 0]\<close>. Short vectors: halves of length zero at \<open>p = 1\<close> and of length
  one at \<open>p = 2\<close> raise \<open>IndexError\<close>.
\<close>

theorem surplus_ignored_shortage_raises_witness:
  "evaluate_hamiltonian lecture_globals ([pi / 8, 7] @ [pi / 4, 9]) (g_Hc lecture_globals) = Inr (- 1) \<and>
   evaluate_circuit (assignment_globals QuantumCircuit 1) ([pi / 2, 7] @ [pi / 4, 9]) = Inr (- (1 / 2)) \<and>
   evaluate_circuit (assignment_globals Program 2) ([0, pi / 4, 7] @ [pi / 2, 0, 9]) = Inr (- (1 / 2)) \<and>
   evaluate_hamiltonian lecture_globals ([] @ []) (g_Hc lecture_globals) = Inl IndexError \<and>
   evaluate_circuit (assignment_globals QuantumCircuit 2) ([7] @ [9]) = Inl IndexError \<and>
   evaluate_circuit (assignment_globals Program 2) ([7] @ [9]) = Inl IndexError"
proof -
  have l: "g_circuit_init lecture_globals = QuantumCircuit [1 / 2, 1 / 2, 1 / 2, 1 / 2] \<or>
      g_circuit_init lecture_globals = Program [1 / 2, 1 / 2, 1 / 2, 1 / 2] \<and>
      g_Hm lecture_globals \<noteq> []"
    by (simp add: lecture_globals_def)
  have q: "g_circuit_init (assignment_globals QuantumCircuit k) = QuantumCircuit [1 / 2, 1 / 2, 1 / 2, 1 / 2] \<or>
      g_circuit_init (assignment_globals QuantumCircuit k) = Program [1 / 2, 1 / 2, 1 / 2, 1 / 2] \<and>
      g_Hm (assignment_globals QuantumCircuit k) \<noteq> []" for k
    by (simp add: assignment_globals_def)
  have r: "g_circuit_init (assignment_globals Program 2) = QuantumCircuit [1 / 2, 1 / 2, 1 / 2, 1 / 2] \<or>
      g_circuit_init (assignment_globals Program 2) = Program [1 / 2, 1 / 2, 1 / 2, 1 / 2] \<and>
      g_Hm (assignment_globals Program 2) \<noteq> []"
    by (simp add: assignment_globals_def)
  have two: "length [pi / 8, 7 :: real] = 2" "length [pi / 4, 9 :: real] = 2" by simp_all
  have two': "length [pi / 2, 7 :: real] = 2" "length [pi / 4, 9 :: real] = 2" by simp_all
  have three: "length [0, pi / 4, 7 :: real] = 3" "length [pi / 2, 0, 9 :: real] = 3" by simp_all
  have zero: "length ([] :: real list) = 0" by simp
  have one: "length [7 :: real] = 1" "length [9 :: real] = 1" by simp_all
  have v1: "evaluate_hamiltonian lecture_globals [pi / 8, pi / 4] (g_Hc lecture_globals) = Inr (- 1)"
    by (simp add: evaluate_hamiltonian_eq g_p_lecture g_init_state_lecture run_one_step
        lecture_cost_then_mixing)
  have v2: "evaluate_circuit (assignment_globals QuantumCircuit 1) [pi / 2, pi / 4] = Inr (- (1 / 2))"
    by (simp add: evaluate_circuit_qiskit_eq assignment_globals_sel run_one_step
        evolve_Hm_assignment evolve_Hc_assignment expectation_Hc_assignment Let_def cos_45 sin_45)
  have v3: "evaluate_circuit (assignment_globals Program 2) [0, pi / 4, pi / 2, 0] = Inr (- (1 / 2))"
    by (simp add: evaluate_circuit_pyquil_ok assignment_globals_sel g_Hc_assignment_nonempty upt_2
        run_two_steps evolve_zero evolve_Hm_assignment evolve_Hc_assignment
        expectation_Hc_assignment Let_def cos_45 sin_45)
  have 1: "evaluate_hamiltonian lecture_globals ([pi / 8, 7] @ [pi / 4, 9]) (g_Hc lecture_globals) = Inr (- 1)"
    using surplus_ignored_shortage_raises [OF two l, where H = "g_Hc lecture_globals"] v1
    by (simp add: g_p_lecture)
  have 2: "evaluate_circuit (assignment_globals QuantumCircuit 1) ([pi / 2, 7] @ [pi / 4, 9]) = Inr (- (1 / 2))"
    using surplus_ignored_shortage_raises [OF two' q [of 1], where H = "[]"] v2
    by (simp add: assignment_globals_sel)
  have 3: "evaluate_circuit (assignment_globals Program 2) ([0, pi / 4, 7] @ [pi / 2, 0, 9]) = Inr (- (1 / 2))"
    using surplus_ignored_shortage_raises [OF three r, where H = "[]"] v3
    by (simp add: assignment_globals_sel)
  have 4: "evaluate_hamiltonian lecture_globals ([] @ []) (g_Hc lecture_globals) = Inl IndexError"
    using surplus_ignored_shortage_raises [OF zero zero l, where H = "g_Hc lecture_globals"]
    by (simp add: g_p_lecture)
  have 5: "evaluate_circuit (assignment_globals QuantumCircuit 2) ([7] @ [9]) = Inl IndexError"
    using surplus_ignored_shortage_raises [OF one q [of 2], where H = "[]"]
    by (simp add: assignment_globals_sel)
  have 6: "evaluate_circuit (assignment_globals Program 2) ([7] @ [9]) = Inl IndexError"
    using surplus_ignored_shortage_raises [OF one r, where H = "[]"]
    by (simp add: assignment_globals_sel)
  from 1 2 3 4 5 6 show ?thesis by simp
qed

end
